theory Spec2Isabelle
  imports
    Main
    "HOL-Library.AList"
    "HOL-Library.Char_ord"
    "HOL-Library.List_Lexorder"
    "HOL-Library.Word"
begin

section \<open>Constants of client.go\<close>

definition ClientVersion :: string where
  "ClientVersion = ''3.0.0''"

definition RestEndpoint :: string where
  "RestEndpoint = ''https://rest.messagebird.com''"

definition VoiceEndpoint :: string where
  "VoiceEndpoint = ''https://voice.messagebird.com''"

definition BalancePath :: string where
  "BalancePath = ''balance''"

definition HLRPath :: string where
  "HLRPath = ''hlr''"

definition CallFlowPath :: string where
  "CallFlowPath = ''call-flows''"

definition CallPath :: string where
  "CallPath = ''calls''"

definition LegPath :: string where
  "LegPath = ''legs''"

definition RecordingPath :: string where
  "RecordingPath = ''recordings''"

definition TranscriptionPath :: string where
  "TranscriptionPath = ''transcriptions''"

definition WebhookPath :: string where
  "WebhookPath = ''webhooks''"

definition Get :: string where
  "Get = ''GET''"

definition Post :: string where
  "Post = ''POST''"

definition Delete :: string where
  "Delete = ''Delete''"

section \<open>Errors, output and the client\<close>

text \<open>
  Go compares error values by identity. The two package-level sentinels of client.go are
  constructors of their own; an error produced by a library call carries the name of the
  call that produced it and its message, so it is never equal to a sentinel.
\<close>

datatype error =
    ErrResponse
  | ErrUnexpectedResponse
  | DoError string
  | ReadAllError string
  | UnmarshalError string
  | MarshalError string
  | ParseError string
  | NewRequestError string

text \<open>
  What a call writes: \<open>LogPrintf\<close> is a line given to \<open>log.Printf\<close> (the standard
  logger), \<open>FmtPrintf\<close> is text given to \<open>fmt.Printf\<close> (standard output).
\<close>

datatype event = LogPrintf string | FmtPrintf string

datatype Logger = Logger

record http_Request =
  Method :: string
  URL :: string
  Header :: "(string \<times> string list) list"
  Body :: "string option"

text \<open>
  A response as \<open>request\<close> reads it: the status code, and what \<open>ioutil.ReadAll\<close>
  gives for the body (\<open>Inl\<close> a read failure, \<open>Inr\<close> the bytes).
\<close>

record http_Response =
  StatusCode :: int
  ResponseBody :: "string + string"

text \<open>
  \<open>HTTPClient\<close> is the transport: \<open>HTTPClient c req\<close> is the result of
  \<open>c.HTTPClient.Do(req)\<close>. \<open>DebugLog\<close> is a pointer: \<open>None\<close> is nil.
\<close>

record Client =
  AccessKey :: string
  HTTPClient :: "http_Request \<Rightarrow> string + http_Response"
  DebugLog :: "Logger option"

section \<open>Data structures of the voice resources\<close>

text \<open>
  The structs of call.go, call_flow.go, recording.go, transcription.go, webhook.go and of the
  Step and Leg declarations. A \<open>*time.Time\<close> is an optional instant, a Go map is an
  association list, a slice is a list (nil is the empty list), a \<open>float32\<close> is its
  IEEE 754 bit pattern.
\<close>

type_synonym time_Time = int

record Step =
  Step_ID :: string
  Step_Action :: string
  Step_Options :: "(string \<times> string) list"

record StepParams =
  StepParams_Action :: string
  StepParams_Options :: "(string \<times> string) list"

record CallFlow =
  CallFlow_ID :: string
  CallFlow_Title :: string
  CallFlow_Steps :: "Step list"
  CallFlow_CreatedAt :: "time_Time option"
  CallFlow_UpdatedAt :: "time_Time option"

record CallFlowParams =
  CallFlowParams_Title :: string
  CallFlowParams_Steps :: "StepParams list"

record CallFlowList =
  CallFlowList_Links :: "(string \<times> string) list"
  CallFlowList_Pagination :: "(string \<times> int) list"
  CallFlowList_Data :: "CallFlow list"

record Call =
  Call_ID :: string
  Call_NumberID :: string
  Call_Status :: string
  Call_Source :: string
  Call_Destination :: string
  Call_CreatedAt :: "time_Time option"
  Call_UpdatedAt :: "time_Time option"
  Call_EndedAt :: "time_Time option"
  Call_Links :: "(string \<times> string option) list"

record CallList =
  CallList_Data :: "Call list"
  CallList_Links :: "(string \<times> string option) list"
  CallList_Pagination :: "(string \<times> int) list"

record CallParams =
  CallParams_Source :: string
  CallParams_Destination :: string
  CallParams_CallFlow :: CallFlowParams

record Leg =
  Leg_ID :: string
  Leg_CallID :: string
  Leg_Source :: string
  Leg_Destination :: string
  Leg_Status :: string
  Leg_Direction :: string
  Leg_Cost :: "32 word"
  Leg_Currency :: string
  Leg_Duration :: int
  Leg_CreatedAt :: "time_Time option"
  Leg_UpdatedAt :: "time_Time option"
  Leg_EndedAt :: "time_Time option"

record LegList =
  LegList_Data :: "Leg list"
  LegList_Links :: "(string \<times> string option) list"
  LegList_Pagination :: "(string \<times> int) list"

record Recording =
  Recording_ID :: string
  Recording_Format :: string
  Recording_LegID :: string
  Recording_Status :: string
  Recording_Duration :: int
  Recording_CreatedAt :: "time_Time option"
  Recording_UpdatedAt :: "time_Time option"
  Recording_Links :: "(string \<times> string option) list"

record RecordingList =
  RecordingList_Data :: "Recording list"
  RecordingList_Links :: "(string \<times> string option) list"
  RecordingList_Pagination :: "(string \<times> int) list"

record Transcription =
  Transcription_ID :: string
  Transcription_RecordingID :: string
  Transcription_Error :: string
  Transcription_CreatedAt :: "time_Time option"
  Transcription_UpdatedAt :: "time_Time option"
  Transcription_Links :: "(string \<times> string option) list"

record TranscriptionList =
  TranscriptionList_Data :: "Transcription list"
  TranscriptionList_Links :: "(string \<times> string option) list"
  TranscriptionList_Pagination :: "(string \<times> int) list"

record Webhook =
  Webhook_ID :: string
  Webhook_URL :: string
  Webhook_Token :: string
  Webhook_CreatedAt :: "time_Time option"
  Webhook_UpdatedAt :: "time_Time option"
  Webhook_Links :: "(string \<times> string option) list"

record WebhookList =
  WebhookList_Data :: "Webhook list"
  WebhookList_Links :: "(string \<times> string option) list"
  WebhookList_Pagination :: "(string \<times> int) list"

record WebhookParams =
  WebhookParams_Title :: string
  WebhookParams_URL :: string
  WebhookParams_Token :: string

text \<open>The zero values \<open>&CallFlowList{}\<close>, \<open>&CallList{}\<close>, ... the methods allocate.\<close>

definition CallFlowList_zero :: CallFlowList where
  "CallFlowList_zero =
     \<lparr>CallFlowList_Links = [], CallFlowList_Pagination = [], CallFlowList_Data = []\<rparr>"

definition CallList_zero :: CallList where
  "CallList_zero = \<lparr>CallList_Data = [], CallList_Links = [], CallList_Pagination = []\<rparr>"

definition LegList_zero :: LegList where
  "LegList_zero = \<lparr>LegList_Data = [], LegList_Links = [], LegList_Pagination = []\<rparr>"

definition RecordingList_zero :: RecordingList where
  "RecordingList_zero =
     \<lparr>RecordingList_Data = [], RecordingList_Links = [], RecordingList_Pagination = []\<rparr>"

definition TranscriptionList_zero :: TranscriptionList where
  "TranscriptionList_zero =
     \<lparr>TranscriptionList_Data = [], TranscriptionList_Links = [],
      TranscriptionList_Pagination = []\<rparr>"

definition WebhookList_zero :: WebhookList where
  "WebhookList_zero =
     \<lparr>WebhookList_Data = [], WebhookList_Links = [], WebhookList_Pagination = []\<rparr>"

section \<open>Form parameters: \<open>url.Values\<close> of Go's net/url\<close>

text \<open>
  \<open>createRequest\<close> calls \<open>params.Encode()\<close> and \<open>url.QueryUnescape\<close>, functions of
  Go's standard library. They are written out here after net/url: \<open>url.Values\<close> is a map
  from a key to the list of its values (an association list with distinct keys),
  \<open>Values_index v k\<close> is \<open>v[k]\<close> (no values for a missing key), \<open>shouldEscape\<close> is taken
  in the query-component mode (\<open>between lo c hi\<close> is its test \<open>lo <= c && c <= hi\<close>), \<open>Encode\<close> walks the sorted keys, \<open>parseQuery\<close> is the
  loop of \<open>url.ParseQuery\<close> that cuts the query at each \<open>&\<close>. A Go string is a byte
  sequence, as \<open>string\<close> is here.
\<close>

type_synonym Values = "(string \<times> string list) list"

definition Values_index :: "Values \<Rightarrow> string \<Rightarrow> string list" where
  "Values_index v k = (case map_of v k of None \<Rightarrow> [] | Some vs \<Rightarrow> vs)"

definition upperhex :: string where
  "upperhex = ''0123456789ABCDEF''"

definition ishex :: "char \<Rightarrow> bool" where
  "ishex c = (CHR ''0'' \<le> c \<and> c \<le> CHR ''9'' \<or> CHR ''a'' \<le> c \<and> c \<le> CHR ''f''
              \<or> CHR ''A'' \<le> c \<and> c \<le> CHR ''F'')"

definition unhex :: "char \<Rightarrow> nat" where
  "unhex c =
     (if CHR ''0'' \<le> c \<and> c \<le> CHR ''9'' then of_char c - of_char CHR ''0''
      else if CHR ''a'' \<le> c \<and> c \<le> CHR ''f'' then of_char c - of_char CHR ''a'' + 10
      else if CHR ''A'' \<le> c \<and> c \<le> CHR ''F'' then of_char c - of_char CHR ''A'' + 10
      else 0)"

definition between :: "char \<Rightarrow> char \<Rightarrow> char \<Rightarrow> bool" where
  "between lo c hi = (lo \<le> c \<and> c \<le> hi)"

definition alphanum :: "char \<Rightarrow> bool" where
  "alphanum c =
     (between CHR ''a'' c CHR ''z'' \<or> between CHR ''A'' c CHR ''Z''
      \<or> between CHR ''0'' c CHR ''9'')"

definition shouldEscape :: "char \<Rightarrow> bool" where
  "shouldEscape c =
     (if alphanum c then False
      else if c \<in> {CHR ''-'', CHR ''_'', CHR ''.'', CHR ''~''} then False
      else True)"

fun QueryEscape :: "string \<Rightarrow> string" where
  "QueryEscape [] = []"
| "QueryEscape (c # s) =
     (if shouldEscape c then
        (if c = CHR '' '' then CHR ''+'' # QueryEscape s
         else CHR ''%'' # upperhex ! (of_char c div 16) # upperhex ! (of_char c mod 16)
                # QueryEscape s)
      else c # QueryEscape s)"

fun QueryUnescape :: "string \<Rightarrow> string + string" where
  "QueryUnescape [] = Inr []"
| "QueryUnescape (c # s) =
     (if c = CHR ''%'' then
        (case s of
           h1 # h2 # rest \<Rightarrow>
             if ishex h1 \<and> ishex h2 then
               (case QueryUnescape rest of
                  Inl err \<Rightarrow> Inl err
                | Inr t \<Rightarrow> Inr (char_of (unhex h1 * 16 + unhex h2) # t))
             else Inl (''invalid URL escape '' @ take 3 (c # s))
         | _ \<Rightarrow> Inl (''invalid URL escape '' @ take 3 (c # s)))
      else
        (case QueryUnescape s of
           Inl err \<Rightarrow> Inl err
         | Inr t \<Rightarrow> Inr ((if c = CHR ''+'' then CHR '' '' else c) # t)))"

fun encode_values :: "string \<Rightarrow> string list \<Rightarrow> string \<Rightarrow> string" where
  "encode_values keyEscaped [] buf = buf"
| "encode_values keyEscaped (v # vs) buf =
     encode_values keyEscaped vs
       ((if buf \<noteq> [] then buf @ ''&'' else buf) @ keyEscaped @ ''='' @ QueryEscape v)"

fun encode_keys :: "Values \<Rightarrow> string list \<Rightarrow> string \<Rightarrow> string" where
  "encode_keys v [] buf = buf"
| "encode_keys v (k # keys) buf =
     encode_keys v keys (encode_values (QueryEscape k) (Values_index v k) buf)"

definition Encode :: "Values \<Rightarrow> string" where
  "Encode v = (if v = [] then [] else encode_keys v (sort (map fst v)) [])"

definition Cut :: "string \<Rightarrow> char \<Rightarrow> string \<times> string" where
  "Cut s sep = (takeWhile (\<lambda>c. c \<noteq> sep) s, drop 1 (dropWhile (\<lambda>c. c \<noteq> sep) s))"

function parseQuery :: "Values \<Rightarrow> string option \<Rightarrow> string \<Rightarrow> Values \<times> string option" where
  "parseQuery m err query =
     (if query = [] then (m, err)
      else
        (let key = fst (Cut query CHR ''&''); query' = snd (Cut query CHR ''&'') in
         if CHR '';'' \<in> set key
         then parseQuery m (Some ''invalid semicolon separator in query'') query'
         else if key = [] then parseQuery m err query'
         else
           (let value = snd (Cut key CHR ''=''); key = fst (Cut key CHR ''='') in
            case QueryUnescape key of
              Inl err1 \<Rightarrow> parseQuery m (if err = None then Some err1 else err) query'
            | Inr key \<Rightarrow>
                (case QueryUnescape value of
                   Inl err1 \<Rightarrow> parseQuery m (if err = None then Some err1 else err) query'
                 | Inr value \<Rightarrow>
                     parseQuery (AList.update key (Values_index m key @ [value]) m) err query'))))"
  by pat_completeness auto
termination
proof -
  have shorter: "length (snd (Cut query sep)) < length query" if "query \<noteq> []"
    for query :: string and sep
  proof -
    have "length (dropWhile (\<lambda>c. c \<noteq> sep) query) \<le> length query"
      by (rule length_dropWhile_le)
    moreover from that have "0 < length query" by simp
    ultimately have "length (drop 1 (dropWhile (\<lambda>c. c \<noteq> sep) query)) < length query"
      unfolding length_drop by arith
    then show ?thesis by (simp only: Cut_def snd_conv)
  qed
  show ?thesis
    by (relation "measure (\<lambda>(m, err, query). length query)") (auto simp: shorter)
qed

declare parseQuery.simps [simp del]

definition ParseQuery :: "string \<Rightarrow> Values \<times> string option" where
  "ParseQuery query = parseQuery [] None query"

section \<open>The request builder\<close>

text \<open>
  \<open>http.Header\<close> is a map from a header name to its values: \<open>Set\<close> replaces them,
  \<open>Add\<close> appends one. The names used by client.go are in canonical form already.
\<close>

type_synonym http_Header = "(string \<times> string list) list"

definition Header_Set :: "string \<Rightarrow> string \<Rightarrow> http_Header \<Rightarrow> http_Header" where
  "Header_Set key val h = AList.update key [val] h"

definition Header_Add :: "string \<Rightarrow> string \<Rightarrow> http_Header \<Rightarrow> http_Header" where
  "Header_Add key val h = AList.update key (Values_index h key @ [val]) h"

text \<open>
  What the builder takes from outside the repository: \<open>url_Parse s\<close> is \<open>url.Parse(s)\<close>,
  an error or the parsed URL, kept as the text \<open>uri.String()\<close> gives back;
  \<open>runtime_Version\<close> is \<open>runtime.Version()\<close>.
\<close>

record go_lib =
  url_Parse :: "string \<Rightarrow> string + string"
  runtime_Version :: string

text \<open>
  \<open>http.NewRequest\<close>: an empty method means GET, the method must be an HTTP token, the
  URL is parsed; the new request has an empty header.
\<close>

definition isTokenRune :: "char \<Rightarrow> bool" where
  "isTokenRune c =
     (alphanum c \<or> c \<in> set ''!#$%&*+-.^_|~'' \<or> c = CHR 0x27 \<or> c = CHR 0x60)"

definition validMethod :: "string \<Rightarrow> bool" where
  "validMethod method = (method \<noteq> [] \<and> list_all isTokenRune method)"

definition http_NewRequest ::
  "go_lib \<Rightarrow> string \<Rightarrow> string \<Rightarrow> string option \<Rightarrow> error + http_Request" where
  "http_NewRequest L method url body =
     (let method = (if method = [] then ''GET'' else method) in
      if \<not> validMethod method then Inl (NewRequestError ''net/http: invalid method'')
      else
        (case url_Parse L url of
           Inl err \<Rightarrow> Inl (ParseError err)
         | Inr u \<Rightarrow> Inr \<lparr>Method = method, URL = u, Header = [], Body = body\<rparr>))"

text \<open>
  \<open>createRequest\<close> of client.go; \<open>params\<close> is a pointer, \<open>None\<close> is nil. The result
  comes with the lines written to the log.
\<close>

definition createRequest ::
  "go_lib \<Rightarrow> Client \<Rightarrow> string \<Rightarrow> string \<Rightarrow> string \<Rightarrow> Values option
     \<Rightarrow> (error + http_Request) \<times> event list" where
  "createRequest L c method endpoint path params =
     (case url_Parse L (endpoint @ ''/'' @ path) of
        Inl err \<Rightarrow> (Inl (ParseError err), [])
      | Inr uri \<Rightarrow>
          (case params of
             Some p \<Rightarrow>
               (let body = Encode p in
                case http_NewRequest L method uri (Some body) of
                  Inl err \<Rightarrow> (Inl err, [])
                | Inr request \<Rightarrow>
                    (let out =
                       (if DebugLog c \<noteq> None then
                          (case QueryUnescape body of
                             Inr unescapedBody \<Rightarrow>
                               [LogPrintf (''HTTP REQUEST: '' @ method @ '' '' @ uri @ '' ''
                                            @ unescapedBody)]
                           | Inl queryError \<Rightarrow>
                               [LogPrintf (''HTTP REQUEST: '' @ method @ '' '' @ uri @ '' ''
                                            @ body)])
                        else []);
                       request = request\<lparr>Header :=
                         Header_Set ''Content-Type'' ''application/x-www-form-urlencoded''
                           (Header request)\<rparr>;
                       request = request\<lparr>Header :=
                         Header_Add ''Accept'' ''application/json'' (Header request)\<rparr>;
                       request = request\<lparr>Header :=
                         Header_Add ''Authorization'' (''AccessKey '' @ AccessKey c)
                           (Header request)\<rparr>;
                       request = request\<lparr>Header :=
                         Header_Add ''User-Agent''
                           (''MessageBird/ApiClient/'' @ ClientVersion @ '' Go/''
                              @ runtime_Version L)
                           (Header request)\<rparr>
                     in (Inr request, out)))
           | None \<Rightarrow>
               (case http_NewRequest L method uri None of
                  Inl err \<Rightarrow> (Inl err, [])
                | Inr request \<Rightarrow>
                    (let out =
                       (if DebugLog c \<noteq> None
                        then [LogPrintf (''HTTP REQUEST: '' @ method @ '' '' @ uri)]
                        else []);
                       request = request\<lparr>Header :=
                         Header_Add ''Accept'' ''application/json'' (Header request)\<rparr>;
                       request = request\<lparr>Header :=
                         Header_Add ''Authorization'' (''AccessKey '' @ AccessKey c)
                           (Header request)\<rparr>;
                       request = request\<lparr>Header :=
                         Header_Add ''User-Agent''
                           (''MessageBird/ApiClient/'' @ ClientVersion @ '' Go/''
                              @ runtime_Version L)
                           (Header request)\<rparr>
                     in (Inr request, out)))))"

text \<open>
  \<open>createJSONRequest\<close> of client.go. \<open>marshal params\<close> stands for
  \<open>json.Marshal(params)\<close>: an error or the encoded bytes. The function writes nothing.
\<close>

definition createJSONRequest ::
  "go_lib \<Rightarrow> Client \<Rightarrow> ('p \<Rightarrow> string + string) \<Rightarrow> string \<Rightarrow> string \<Rightarrow> string \<Rightarrow> 'p
     \<Rightarrow> error + http_Request" where
  "createJSONRequest L c marshal method endpoint path params =
     (case url_Parse L (endpoint @ ''/'' @ path) of
        Inl err \<Rightarrow> Inl (ParseError err)
      | Inr uri \<Rightarrow>
          (case marshal params of
             Inl err \<Rightarrow> Inl (MarshalError err)
           | Inr jsonEncoded \<Rightarrow>
               (case http_NewRequest L method uri (Some jsonEncoded) of
                  Inl err \<Rightarrow> Inl err
                | Inr request \<Rightarrow>
                    (let request = request\<lparr>Header :=
                           Header_Set ''Content-Type'' ''application/json'' (Header request)\<rparr>;
                         request = request\<lparr>Header :=
                           Header_Add ''Accept'' ''application/json'' (Header request)\<rparr>;
                         request = request\<lparr>Header :=
                           Header_Add ''Authorization'' (''AccessKey '' @ AccessKey c)
                             (Header request)\<rparr>;
                         request = request\<lparr>Header :=
                           Header_Add ''User-Agent''
                             (''MessageBird/ApiClient/'' @ ClientVersion @ '' Go/''
                                @ runtime_Version L)
                             (Header request)\<rparr>
                     in Inr request))))"

section \<open>The response dispatcher\<close>

text \<open>
  \<open>request\<close> of client.go. The container \<open>v\<close> is an interface value holding a pointer
  or nil, here \<open>'v option\<close>; the function returns the container as the call leaves it.
  \<open>unmarshal body x\<close> stands for \<open>json.Unmarshal(body, &v)\<close> on a container in state
  \<open>x\<close>: the state it leaves and the error it returns, if any.
\<close>

definition request ::
  "Client \<Rightarrow> (string \<Rightarrow> 'v \<Rightarrow> 'v \<times> string option) \<Rightarrow> 'v option \<Rightarrow> http_Request
     \<Rightarrow> error option \<times> 'v option \<times> event list" where
  "request c unmarshal v req =
     (case HTTPClient c req of
        Inl err \<Rightarrow> (Some (DoError err), v, [])
      | Inr response \<Rightarrow>
          (case ResponseBody response of
             Inl err \<Rightarrow> (Some (ReadAllError err), v, [])
           | Inr responseBody \<Rightarrow>
               (let out = (if DebugLog c \<noteq> None
                           then [LogPrintf (''HTTP RESPONSE: '' @ responseBody)] else [])
                          @ [FmtPrintf (''HTTP RESPONSE: '' @ responseBody @ [CHR 0x0A])]
                in if StatusCode response = 500 then (Some ErrUnexpectedResponse, v, out)
                   else
                     (case v of
                        None \<Rightarrow>
                          if StatusCode response = 200 \<or> StatusCode response = 201
                          then (None, None, out)
                          else (Some ErrResponse, None, out)
                      | Some x \<Rightarrow>
                          (case unmarshal responseBody x of
                             (x', Some err) \<Rightarrow> (Some (UnmarshalError err), Some x', out)
                           | (x', None) \<Rightarrow>
                               if StatusCode response = 200 \<or> StatusCode response = 201
                               then (None, Some x', out)
                               else (Some ErrResponse, Some x', out))))))"

section \<open>Resource methods\<close>

text \<open>
  A method returns a pointer and an error, or it panics: \<open>Return p err\<close> is
  \<open>return p, err\<close> (\<open>None\<close> is nil on both sides), \<open>Panic\<close> is the run-time panic of an
  index out of range. Every method is paired with what it and its callees wrote.
\<close>

datatype 'a result = Return "'a option" "error option" | Panic

text \<open>
  \<open>index0 xs err\<close> is the statement \<open>return &xs[0], err\<close>: Go evaluates \<open>xs[0]\<close> with a
  bounds check and panics on an empty (or nil) slice.
\<close>

definition index0 :: "'a list \<Rightarrow> error option \<Rightarrow> 'a result" where
  "index0 xs err = (case xs of [] \<Rightarrow> Panic | x # _ \<Rightarrow> Return (Some x) err)"

text \<open>
  A method allocates its container, passes the pointer to \<open>request\<close> and reads the
  container afterwards: \<open>deref v zero\<close> is the container behind the pointer that
  \<open>request\<close> gives back, \<open>zero\<close> where it has none to give.
\<close>

definition deref :: "'v option \<Rightarrow> 'v \<Rightarrow> 'v" where
  "deref v zero = (case v of Some x \<Rightarrow> x | None \<Rightarrow> zero)"

text \<open>
  Methods of the REST endpoint. The Balance and HLR structs are declared outside the files at
  hand: the container type is a parameter, and \<open>zero\<close> is \<open>&Balance{}\<close> or \<open>&HLR{}\<close>.
\<close>

definition Balance ::
  "go_lib \<Rightarrow> Client \<Rightarrow> (string \<Rightarrow> 'b \<Rightarrow> 'b \<times> string option) \<Rightarrow> 'b
     \<Rightarrow> 'b result \<times> event list" where
  "Balance L c unmarshal zero =
     (case createRequest L c Get RestEndpoint BalancePath None of
        (Inl err, out) \<Rightarrow> (Return None (Some err), out)
      | (Inr req, out) \<Rightarrow>
          (case request c unmarshal (Some zero) req of
             (err, v, out') \<Rightarrow>
               (let balance = deref v zero in
                case err of
                  Some err \<Rightarrow>
                    if err = ErrResponse then (Return (Some balance) (Some err), out @ out')
                    else (Return None (Some err), out @ out')
                | None \<Rightarrow> (Return (Some balance) None, out @ out'))))"

definition NewHLR ::
  "go_lib \<Rightarrow> Client \<Rightarrow> (string \<Rightarrow> 'h \<Rightarrow> 'h \<times> string option) \<Rightarrow> 'h \<Rightarrow> string \<Rightarrow> string
     \<Rightarrow> 'h result \<times> event list" where
  "NewHLR L c unmarshal zero msisdn reference =
     (let params = [(''msisdn'', [msisdn]), (''reference'', [reference])] in
      case createRequest L c Post RestEndpoint HLRPath (Some params) of
        (Inl err, out) \<Rightarrow> (Return None (Some err), out)
      | (Inr req, out) \<Rightarrow>
          (case request c unmarshal (Some zero) req of
             (err, v, out') \<Rightarrow>
               (let hlr = deref v zero in
                case err of
                  Some err \<Rightarrow>
                    if err = ErrResponse then (Return (Some hlr) (Some err), out @ out')
                    else (Return None (Some err), out @ out')
                | None \<Rightarrow> (Return (Some hlr) None, out @ out'))))"

text \<open>Methods of the voice endpoint.\<close>

definition CallFlow ::
  "go_lib \<Rightarrow> Client \<Rightarrow> (string \<Rightarrow> CallFlowList \<Rightarrow> CallFlowList \<times> string option) \<Rightarrow> string
     \<Rightarrow> CallFlow result \<times> event list" where
  "CallFlow L c unmarshal id' =
     (case createRequest L c Get VoiceEndpoint (CallFlowPath @ ''/'' @ id') None of
        (Inl err, out) \<Rightarrow> (Return None (Some err), out)
      | (Inr req, out) \<Rightarrow>
          (case request c unmarshal (Some CallFlowList_zero) req of
             (err, v, out') \<Rightarrow>
               (let callFlowList = deref v CallFlowList_zero in
                case err of
                  Some err \<Rightarrow>
                    if err = ErrResponse then (index0 (CallFlowList_Data callFlowList) (Some err), out @ out')
                    else (Return None (Some err), out @ out')
                | None \<Rightarrow> (index0 (CallFlowList_Data callFlowList) None, out @ out'))))"

definition CallFlows ::
  "go_lib \<Rightarrow> Client \<Rightarrow> (string \<Rightarrow> CallFlowList \<Rightarrow> CallFlowList \<times> string option)
     \<Rightarrow> CallFlowList result \<times> event list" where
  "CallFlows L c unmarshal =
     (case createRequest L c Get VoiceEndpoint (CallFlowPath) None of
        (Inl err, out) \<Rightarrow> (Return None (Some err), out)
      | (Inr req, out) \<Rightarrow>
          (case request c unmarshal (Some CallFlowList_zero) req of
             (err, v, out') \<Rightarrow>
               (let callFlowList = deref v CallFlowList_zero in
                case err of
                  Some err \<Rightarrow>
                    if err = ErrResponse then (Return (Some callFlowList) None, out @ out')
                    else (Return None (Some err), out @ out')
                | None \<Rightarrow> (Return (Some callFlowList) None, out @ out'))))"

definition NewCallFlow ::
  "go_lib \<Rightarrow> Client \<Rightarrow> (CallFlowParams option \<Rightarrow> string + string)
     \<Rightarrow> (string \<Rightarrow> CallFlowList \<Rightarrow> CallFlowList \<times> string option) \<Rightarrow> CallFlowParams option
     \<Rightarrow> CallFlow result \<times> event list" where
  "NewCallFlow L c marshal unmarshal params =
     (case (createJSONRequest L c marshal Post VoiceEndpoint (CallFlowPath) params, []) of
        (Inl err, out) \<Rightarrow> (Return None (Some err), out)
      | (Inr req, out) \<Rightarrow>
          (case request c unmarshal (Some CallFlowList_zero) req of
             (err, v, out') \<Rightarrow>
               (let callFlowList = deref v CallFlowList_zero in
                case err of
                  Some err \<Rightarrow>
                    if err = ErrResponse then (index0 (CallFlowList_Data callFlowList) None, out @ out')
                    else (Return None (Some err), out @ out')
                | None \<Rightarrow> (index0 (CallFlowList_Data callFlowList) None, out @ out'))))"

definition Call ::
  "go_lib \<Rightarrow> Client \<Rightarrow> (string \<Rightarrow> CallList \<Rightarrow> CallList \<times> string option) \<Rightarrow> string
     \<Rightarrow> Call result \<times> event list" where
  "Call L c unmarshal id' =
     (case createRequest L c Get VoiceEndpoint (CallPath @ ''/'' @ id') None of
        (Inl err, out) \<Rightarrow> (Return None (Some err), out)
      | (Inr req, out) \<Rightarrow>
          (case request c unmarshal (Some CallList_zero) req of
             (err, v, out') \<Rightarrow>
               (let callList = deref v CallList_zero in
                case err of
                  Some err \<Rightarrow>
                    if err = ErrResponse then (index0 (CallList_Data callList) None, out @ out')
                    else (Return None (Some err), out @ out')
                | None \<Rightarrow> (index0 (CallList_Data callList) None, out @ out'))))"

definition Calls ::
  "go_lib \<Rightarrow> Client \<Rightarrow> (string \<Rightarrow> CallList \<Rightarrow> CallList \<times> string option)
     \<Rightarrow> CallList result \<times> event list" where
  "Calls L c unmarshal =
     (case createRequest L c Get VoiceEndpoint (CallPath) None of
        (Inl err, out) \<Rightarrow> (Return None (Some err), out)
      | (Inr req, out) \<Rightarrow>
          (case request c unmarshal (Some CallList_zero) req of
             (err, v, out') \<Rightarrow>
               (let callList = deref v CallList_zero in
                case err of
                  Some err \<Rightarrow>
                    if err = ErrResponse then (Return (Some callList) None, out @ out')
                    else (Return None (Some err), out @ out')
                | None \<Rightarrow> (Return (Some callList) None, out @ out'))))"

definition NewCall ::
  "go_lib \<Rightarrow> Client \<Rightarrow> (CallParams option \<Rightarrow> string + string)
     \<Rightarrow> (string \<Rightarrow> CallList \<Rightarrow> CallList \<times> string option) \<Rightarrow> CallParams option
     \<Rightarrow> Call result \<times> event list" where
  "NewCall L c marshal unmarshal params =
     (case (createJSONRequest L c marshal Post VoiceEndpoint (CallPath) params, []) of
        (Inl err, out) \<Rightarrow> (Return None (Some err), out)
      | (Inr req, out) \<Rightarrow>
          (case request c unmarshal (Some CallList_zero) req of
             (err, v, out') \<Rightarrow>
               (let callList = deref v CallList_zero in
                case err of
                  Some err \<Rightarrow>
                    if err = ErrResponse then (index0 (CallList_Data callList) (Some err), out @ out')
                    else (Return None (Some err), out @ out')
                | None \<Rightarrow> (index0 (CallList_Data callList) None, out @ out'))))"

definition Leg ::
  "go_lib \<Rightarrow> Client \<Rightarrow> (string \<Rightarrow> LegList \<Rightarrow> LegList \<times> string option) \<Rightarrow> string \<Rightarrow> string
     \<Rightarrow> Leg result \<times> event list" where
  "Leg L c unmarshal callID legID =
     (case createRequest L c Get VoiceEndpoint (CallPath @ ''/'' @ callID @ ''/'' @ LegPath @ ''/'' @ legID) None of
        (Inl err, out) \<Rightarrow> (Return None (Some err), out)
      | (Inr req, out) \<Rightarrow>
          (case request c unmarshal (Some LegList_zero) req of
             (err, v, out') \<Rightarrow>
               (let legList = deref v LegList_zero in
                case err of
                  Some err \<Rightarrow>
                    if err = ErrResponse then (index0 (LegList_Data legList) None, out @ out')
                    else (Return None (Some err), out @ out')
                | None \<Rightarrow> (index0 (LegList_Data legList) None, out @ out'))))"

definition Legs ::
  "go_lib \<Rightarrow> Client \<Rightarrow> (string \<Rightarrow> LegList \<Rightarrow> LegList \<times> string option) \<Rightarrow> string
     \<Rightarrow> LegList result \<times> event list" where
  "Legs L c unmarshal callID =
     (case createRequest L c Get VoiceEndpoint (CallPath @ ''/'' @ callID @ ''/'' @ LegPath) None of
        (Inl err, out) \<Rightarrow> (Return None (Some err), out)
      | (Inr req, out) \<Rightarrow>
          (case request c unmarshal (Some LegList_zero) req of
             (err, v, out') \<Rightarrow>
               (let legList = deref v LegList_zero in
                case err of
                  Some err \<Rightarrow>
                    if err = ErrResponse then (Return (Some legList) None, out @ out')
                    else (Return None (Some err), out @ out')
                | None \<Rightarrow> (Return (Some legList) None, out @ out'))))"

definition Recording ::
  "go_lib \<Rightarrow> Client \<Rightarrow> (string \<Rightarrow> RecordingList \<Rightarrow> RecordingList \<times> string option) \<Rightarrow> string \<Rightarrow> string \<Rightarrow> string
     \<Rightarrow> Recording result \<times> event list" where
  "Recording L c unmarshal callID legID recordingID =
     (case createRequest L c Get VoiceEndpoint (CallPath @ ''/'' @ callID @ ''/'' @ LegPath @ ''/'' @ legID @ ''/'' @ RecordingPath @ ''/'' @ recordingID) None of
        (Inl err, out) \<Rightarrow> (Return None (Some err), out)
      | (Inr req, out) \<Rightarrow>
          (case request c unmarshal (Some RecordingList_zero) req of
             (err, v, out') \<Rightarrow>
               (let recordingList = deref v RecordingList_zero in
                case err of
                  Some err \<Rightarrow>
                    if err = ErrResponse then (index0 (RecordingList_Data recordingList) None, out @ out')
                    else (Return None (Some err), out @ out')
                | None \<Rightarrow> (index0 (RecordingList_Data recordingList) None, out @ out'))))"

definition Recordings ::
  "go_lib \<Rightarrow> Client \<Rightarrow> (string \<Rightarrow> RecordingList \<Rightarrow> RecordingList \<times> string option) \<Rightarrow> string \<Rightarrow> string
     \<Rightarrow> RecordingList result \<times> event list" where
  "Recordings L c unmarshal callID legID =
     (case createRequest L c Get VoiceEndpoint (CallPath @ ''/'' @ callID @ ''/'' @ LegPath @ ''/'' @ legID @ ''/'' @ RecordingPath) None of
        (Inl err, out) \<Rightarrow> (Return None (Some err), out)
      | (Inr req, out) \<Rightarrow>
          (case request c unmarshal (Some RecordingList_zero) req of
             (err, v, out') \<Rightarrow>
               (let recordingList = deref v RecordingList_zero in
                case err of
                  Some err \<Rightarrow>
                    if err = ErrResponse then (Return (Some recordingList) None, out @ out')
                    else (Return None (Some err), out @ out')
                | None \<Rightarrow> (Return (Some recordingList) None, out @ out'))))"

definition Transcription ::
  "go_lib \<Rightarrow> Client \<Rightarrow> (string \<Rightarrow> TranscriptionList \<Rightarrow> TranscriptionList \<times> string option) \<Rightarrow> string \<Rightarrow> string \<Rightarrow> string \<Rightarrow> string
     \<Rightarrow> Transcription result \<times> event list" where
  "Transcription L c unmarshal callID legID recordingID transcriptionID =
     (case createRequest L c Get VoiceEndpoint (CallPath @ ''/'' @ callID @ ''/'' @ LegPath @ ''/'' @ legID @ ''/'' @ RecordingPath @ ''/'' @ recordingID @ ''/'' @ TranscriptionPath @ ''/'' @ transcriptionID) None of
        (Inl err, out) \<Rightarrow> (Return None (Some err), out)
      | (Inr req, out) \<Rightarrow>
          (case request c unmarshal (Some TranscriptionList_zero) req of
             (err, v, out') \<Rightarrow>
               (let transcriptionList = deref v TranscriptionList_zero in
                case err of
                  Some err \<Rightarrow>
                    if err = ErrResponse then (index0 (TranscriptionList_Data transcriptionList) None, out @ out')
                    else (Return None (Some err), out @ out')
                | None \<Rightarrow> (index0 (TranscriptionList_Data transcriptionList) None, out @ out'))))"

definition Transcriptions ::
  "go_lib \<Rightarrow> Client \<Rightarrow> (string \<Rightarrow> TranscriptionList \<Rightarrow> TranscriptionList \<times> string option) \<Rightarrow> string \<Rightarrow> string \<Rightarrow> string
     \<Rightarrow> TranscriptionList result \<times> event list" where
  "Transcriptions L c unmarshal callID legID recordingID =
     (case createRequest L c Get VoiceEndpoint (CallPath @ ''/'' @ callID @ ''/'' @ LegPath @ ''/'' @ legID @ ''/'' @ RecordingPath @ ''/'' @ TranscriptionPath) None of
        (Inl err, out) \<Rightarrow> (Return None (Some err), out)
      | (Inr req, out) \<Rightarrow>
          (case request c unmarshal (Some TranscriptionList_zero) req of
             (err, v, out') \<Rightarrow>
               (let transcriptionList = deref v TranscriptionList_zero in
                case err of
                  Some err \<Rightarrow>
                    if err = ErrResponse then (Return (Some transcriptionList) None, out @ out')
                    else (Return None (Some err), out @ out')
                | None \<Rightarrow> (Return (Some transcriptionList) None, out @ out'))))"

definition NewTranscriptionRequest ::
  "go_lib \<Rightarrow> Client \<Rightarrow> (unit \<Rightarrow> string + string)
     \<Rightarrow> (string \<Rightarrow> TranscriptionList \<Rightarrow> TranscriptionList \<times> string option) \<Rightarrow> string \<Rightarrow> string \<Rightarrow> string
     \<Rightarrow> Transcription result \<times> event list" where
  "NewTranscriptionRequest L c marshal unmarshal callID legID recordingID =
     (case (createJSONRequest L c marshal Post VoiceEndpoint (CallPath @ ''/'' @ callID @ ''/'' @ LegPath @ ''/'' @ legID @ ''/'' @ RecordingPath @ ''/'' @ TranscriptionPath) (), []) of
        (Inl err, out) \<Rightarrow> (Return None (Some err), out)
      | (Inr req, out) \<Rightarrow>
          (case request c unmarshal (Some TranscriptionList_zero) req of
             (err, v, out') \<Rightarrow>
               (let transcriptionList = deref v TranscriptionList_zero in
                case err of
                  Some err \<Rightarrow>
                    if err = ErrResponse then (index0 (TranscriptionList_Data transcriptionList) None, out @ out')
                    else (Return None (Some err), out @ out')
                | None \<Rightarrow> (index0 (TranscriptionList_Data transcriptionList) None, out @ out'))))"

definition Webhook ::
  "go_lib \<Rightarrow> Client \<Rightarrow> (string \<Rightarrow> WebhookList \<Rightarrow> WebhookList \<times> string option) \<Rightarrow> string
     \<Rightarrow> Webhook result \<times> event list" where
  "Webhook L c unmarshal id' =
     (case createRequest L c Get VoiceEndpoint (WebhookPath @ ''/'' @ id') None of
        (Inl err, out) \<Rightarrow> (Return None (Some err), out)
      | (Inr req, out) \<Rightarrow>
          (case request c unmarshal (Some WebhookList_zero) req of
             (err, v, out') \<Rightarrow>
               (let webhookList = deref v WebhookList_zero in
                case err of
                  Some err \<Rightarrow>
                    if err = ErrResponse then (index0 (WebhookList_Data webhookList) (Some err), out @ out')
                    else (Return None (Some err), out @ out')
                | None \<Rightarrow> (index0 (WebhookList_Data webhookList) None, out @ out'))))"

definition Webhooks ::
  "go_lib \<Rightarrow> Client \<Rightarrow> (string \<Rightarrow> WebhookList \<Rightarrow> WebhookList \<times> string option)
     \<Rightarrow> WebhookList result \<times> event list" where
  "Webhooks L c unmarshal =
     (case createRequest L c Get VoiceEndpoint (WebhookPath) None of
        (Inl err, out) \<Rightarrow> (Return None (Some err), out)
      | (Inr req, out) \<Rightarrow>
          (case request c unmarshal (Some WebhookList_zero) req of
             (err, v, out') \<Rightarrow>
               (let webhookList = deref v WebhookList_zero in
                case err of
                  Some err \<Rightarrow>
                    if err = ErrResponse then (Return (Some webhookList) (Some err), out @ out')
                    else (Return None (Some err), out @ out')
                | None \<Rightarrow> (Return (Some webhookList) None, out @ out'))))"

definition NewWebhook ::
  "go_lib \<Rightarrow> Client \<Rightarrow> (WebhookParams option \<Rightarrow> string + string)
     \<Rightarrow> (string \<Rightarrow> WebhookList \<Rightarrow> WebhookList \<times> string option) \<Rightarrow> WebhookParams option
     \<Rightarrow> Webhook result \<times> event list" where
  "NewWebhook L c marshal unmarshal params =
     (case (createJSONRequest L c marshal Post VoiceEndpoint (WebhookPath) params, []) of
        (Inl err, out) \<Rightarrow> (Return None (Some err), out)
      | (Inr req, out) \<Rightarrow>
          (case request c unmarshal (Some WebhookList_zero) req of
             (err, v, out') \<Rightarrow>
               (let webhookList = deref v WebhookList_zero in
                case err of
                  Some err \<Rightarrow>
                    if err = ErrResponse then (index0 (WebhookList_Data webhookList) (Some err), out @ out')
                    else (Return None (Some err), out @ out')
                | None \<Rightarrow> (index0 (WebhookList_Data webhookList) None, out @ out'))))"

text \<open>
  \<open>DeleteWebhook\<close> passes no container (\<open>c.request(nil, request)\<close>) and returns the error
  alone.
\<close>

definition DeleteWebhook :: "go_lib \<Rightarrow> Client \<Rightarrow> string \<Rightarrow> error option \<times> event list" where
  "DeleteWebhook L c id' =
     (case createRequest L c Delete VoiceEndpoint (WebhookPath @ ''/'' @ id') None of
        (Inl err, out) \<Rightarrow> (Some err, out)
      | (Inr req, out) \<Rightarrow>
          (case request c (\<lambda>body x. (x, None)) (None :: unit option) req of
             (err, v, out') \<Rightarrow>
               (case err of
                  Some err \<Rightarrow> (Some err, out @ out')
                | None \<Rightarrow> (None, out @ out'))))"

section \<open>Example environment\<close>

text \<open>
  A concrete library, client and server for the examples: \<open>url.Parse\<close> accepts every
  text, the transport \<open>respond code body\<close> answers every request with that status code and
  body, and \<open>example_unmarshal\<close> is \<open>json.Unmarshal\<close> on the three bodies the examples
  use: a list wrapper with one element (decoded by \<open>fill\<close>), an error report without a
  data array (nothing to store), and anything else (a syntax error).
\<close>

definition example_lib :: go_lib where
  "example_lib = \<lparr>url_Parse = Inr, runtime_Version = ''go1.10''\<rparr>"

definition respond :: "int \<Rightarrow> string \<Rightarrow> http_Request \<Rightarrow> string + http_Response" where
  "respond code body req = Inr \<lparr>StatusCode = code, ResponseBody = Inr body\<rparr>"

definition example_client :: "(http_Request \<Rightarrow> string + http_Response) \<Rightarrow> Client" where
  "example_client transport =
     \<lparr>AccessKey = ''test-key'', HTTPClient = transport, DebugLog = None\<rparr>"

definition data_body :: string where
  \<open>data_body = ''{"data":[{"id":"x-1"}]}''\<close>

definition errors_body :: string where
  \<open>errors_body = ''{"errors":[{"message":"Not found","code":13}]}''\<close>

definition example_unmarshal :: "('l \<Rightarrow> 'l) \<Rightarrow> string \<Rightarrow> 'l \<Rightarrow> 'l \<times> string option" where
  "example_unmarshal fill body x =
     (if body = data_body then (fill x, None)
      else if body = errors_body then (x, None)
      else (x, Some ''invalid character''))"

definition example_Call :: Call where
  "example_Call =
     \<lparr>Call_ID = ''x-1'', Call_NumberID = [], Call_Status = [], Call_Source = [],
      Call_Destination = [], Call_CreatedAt = None, Call_UpdatedAt = None, Call_EndedAt = None,
      Call_Links = []\<rparr>"

definition example_Webhook :: Webhook where
  "example_Webhook =
     \<lparr>Webhook_ID = ''x-1'', Webhook_URL = [], Webhook_Token = [], Webhook_CreatedAt = None,
      Webhook_UpdatedAt = None, Webhook_Links = []\<rparr>"

definition example_CallFlow :: CallFlow where
  "example_CallFlow =
     \<lparr>CallFlow_ID = ''x-1'', CallFlow_Title = [], CallFlow_Steps = [],
      CallFlow_CreatedAt = None, CallFlow_UpdatedAt = None\<rparr>"

text \<open>
  One element of each voice resource, as \<open>data_body\<close> describes it, the decoder
  of each list wrapper, and an encoder for the JSON payloads.
\<close>

definition example_Leg :: Leg where
  "example_Leg =
     \<lparr>Leg_ID = ''x-1'', Leg_CallID = [], Leg_Source = [], Leg_Destination = [],
      Leg_Status = [], Leg_Direction = [], Leg_Cost = 0, Leg_Currency = [], Leg_Duration = 0,
      Leg_CreatedAt = None, Leg_UpdatedAt = None, Leg_EndedAt = None\<rparr>"

definition example_Recording :: Recording where
  "example_Recording =
     \<lparr>Recording_ID = ''x-1'', Recording_Format = [], Recording_LegID = [],
      Recording_Status = [], Recording_Duration = 0, Recording_CreatedAt = None,
      Recording_UpdatedAt = None, Recording_Links = []\<rparr>"

definition example_Transcription :: Transcription where
  "example_Transcription =
     \<lparr>Transcription_ID = ''x-1'', Transcription_RecordingID = [], Transcription_Error = [],
      Transcription_CreatedAt = None, Transcription_UpdatedAt = None,
      Transcription_Links = []\<rparr>"

definition unmarshal_CallFlowList ::
  "string \<Rightarrow> CallFlowList \<Rightarrow> CallFlowList \<times> string option" where
  "unmarshal_CallFlowList =
     example_unmarshal (\<lambda>l. l\<lparr>CallFlowList_Data := [example_CallFlow]\<rparr>)"

definition unmarshal_CallList :: "string \<Rightarrow> CallList \<Rightarrow> CallList \<times> string option" where
  "unmarshal_CallList = example_unmarshal (\<lambda>l. l\<lparr>CallList_Data := [example_Call]\<rparr>)"

definition unmarshal_LegList :: "string \<Rightarrow> LegList \<Rightarrow> LegList \<times> string option" where
  "unmarshal_LegList = example_unmarshal (\<lambda>l. l\<lparr>LegList_Data := [example_Leg]\<rparr>)"

definition unmarshal_RecordingList ::
  "string \<Rightarrow> RecordingList \<Rightarrow> RecordingList \<times> string option" where
  "unmarshal_RecordingList =
     example_unmarshal (\<lambda>l. l\<lparr>RecordingList_Data := [example_Recording]\<rparr>)"

definition unmarshal_TranscriptionList ::
  "string \<Rightarrow> TranscriptionList \<Rightarrow> TranscriptionList \<times> string option" where
  "unmarshal_TranscriptionList =
     example_unmarshal (\<lambda>l. l\<lparr>TranscriptionList_Data := [example_Transcription]\<rparr>)"

definition unmarshal_WebhookList ::
  "string \<Rightarrow> WebhookList \<Rightarrow> WebhookList \<times> string option" where
  "unmarshal_WebhookList =
     example_unmarshal (\<lambda>l. l\<lparr>WebhookList_Data := [example_Webhook]\<rparr>)"

definition marshal_any :: "'p \<Rightarrow> string + string" where
  "marshal_any p = Inr ''{}''"

text \<open>
  \<open>json.Unmarshal\<close> checks the shape as well as the syntax: the body \<open>[]\<close> is a
  well-formed JSON document, the empty array, and decoding it into a \<open>*CallList\<close>, a
  struct, stores nothing and returns an \<open>*UnmarshalTypeError\<close>.
  \<open>unmarshal_CallList_typed\<close> is \<open>unmarshal_CallList\<close> with that body added.
\<close>

definition unmarshal_CallList_typed ::
  "string \<Rightarrow> CallList \<Rightarrow> CallList \<times> string option" where
  "unmarshal_CallList_typed body x =
     (if body = ''[]''
      then (x, Some ''json: cannot unmarshal array into Go value of type messagebird.CallList'')
      else unmarshal_CallList body x)"

text \<open>
  Form parameters as \<open>NewHLR\<close> builds them, and the requests the two builders make
  of them in the example environment.
\<close>

definition example_params :: Values where
  "example_params = [(''reference'', [''a&b=c'', ''x'']), (''msisdn'', [''+31 6''])]"

definition example_form_request :: http_Request where
  "example_form_request =
     \<lparr>Method = ''POST'', URL = ''https://rest.messagebird.com/hlr'',
      Header =
        [(''Content-Type'', [''application/x-www-form-urlencoded'']),
         (''Accept'', [''application/json'']),
         (''Authorization'', [''AccessKey test-key'']),
         (''User-Agent'', [''MessageBird/ApiClient/3.0.0 Go/go1.10''])],
      Body = Some ''msisdn=%2B31+6&reference=a%26b%3Dc&reference=x''\<rparr>"

definition example_json_request :: http_Request where
  "example_json_request =
     \<lparr>Method = ''POST'', URL = ''https://voice.messagebird.com/webhooks'',
      Header =
        [(''Content-Type'', [''application/json'']),
         (''Accept'', [''application/json'']),
         (''Authorization'', [''AccessKey test-key'']),
         (''User-Agent'', [''MessageBird/ApiClient/3.0.0 Go/go1.10''])],
      Body = Some ''null''\<rparr>"

section \<open>Auxiliary notions for the proofs about \<open>Encode\<close>\<close>

text \<open>
  \<open>piece (k, v)\<close> is what \<open>Encode\<close> writes for one value of a key, \<open>add_piece\<close> is one
  round of its inner loop, \<open>join_pieces\<close> is the pieces with \<open>&\<close> between them,
  \<open>pairs_of v keys\<close> lists the pairs of \<open>v\<close> in the order of \<open>keys\<close>, and
  \<open>append_pair\<close> is the assignment \<open>m[key] = append(m[key], value)\<close> of \<open>parseQuery\<close>.
\<close>

definition piece :: "string \<times> string \<Rightarrow> string" where
  "piece kv = QueryEscape (fst kv) @ ''='' @ QueryEscape (snd kv)"

definition add_piece :: "string \<Rightarrow> string \<Rightarrow> string" where
  "add_piece buf p = (if buf \<noteq> [] then buf @ ''&'' else buf) @ p"

fun join_pieces :: "(string \<times> string) list \<Rightarrow> string" where
  "join_pieces [] = []"
| "join_pieces [kv] = piece kv"
| "join_pieces (kv # kvs) = piece kv @ ''&'' @ join_pieces kvs"

definition pairs_of :: "Values \<Rightarrow> string list \<Rightarrow> (string \<times> string) list" where
  "pairs_of v keys = concat (map (\<lambda>k. map (Pair k) (Values_index v k)) keys)"

definition append_pair :: "string \<times> string \<Rightarrow> Values \<Rightarrow> Values" where
  "append_pair kv m = AList.update (fst kv) (Values_index m (fst kv) @ [snd kv]) m"

section \<open>Properties of \<open>Encode\<close> and \<open>ParseQuery\<close>\<close>

lemma hex_table:
  "\<forall>n\<in>set [0..<16]. ishex (upperhex ! n) \<and> unhex (upperhex ! n) = n
      \<and> upperhex ! n \<notin> {CHR ''&'', CHR ''='', CHR '';'', CHR ''%'', CHR ''+''}"
  by code_simp

lemma hex_digit:
  assumes "n < 16"
  shows "ishex (upperhex ! n)" and "unhex (upperhex ! n) = n"
    and "upperhex ! n \<noteq> CHR ''&''" and "upperhex ! n \<noteq> CHR ''=''"
    and "upperhex ! n \<noteq> CHR '';''"
  using assms hex_table by auto

lemma byte_nibbles:
  "(of_char c :: nat) div 16 < 16" "(of_char c :: nat) mod 16 < 16"
proof -
  have "(of_char c :: nat) < 256" by (rule nat_of_char_less_256)
  then show "(of_char c :: nat) div 16 < 16" by arith
  show "(of_char c :: nat) mod 16 < 16" by simp
qed

lemma unescaped_not_special:
  "\<not> shouldEscape c \<Longrightarrow> c \<noteq> CHR ''&'' \<and> c \<noteq> CHR ''='' \<and> c \<noteq> CHR '';'' \<and> c \<noteq> CHR ''%'' \<and> c \<noteq> CHR ''+''"
  by (auto simp: shouldEscape_def alphanum_def between_def)

lemma QueryEscape_chars:
  "c \<in> set (QueryEscape s) \<Longrightarrow> c \<noteq> CHR ''&'' \<and> c \<noteq> CHR ''='' \<and> c \<noteq> CHR '';''"
proof (induction s)
  case Nil
  then show ?case by simp
next
  case (Cons a s)
  then show ?case
    using hex_digit(3-5) [OF byte_nibbles(1), of a] hex_digit(3-5) [OF byte_nibbles(2), of a]
      unescaped_not_special [of a]
    by (auto split: if_splits)
qed

lemma QueryUnescape_QueryEscape: "QueryUnescape (QueryEscape s) = Inr s"
proof (induction s)
  case Nil
  then show ?case by simp
next
  case (Cons a s)
  have nib: "char_of (unhex (upperhex ! (of_char a div 16)) * 16
                + unhex (upperhex ! (of_char a mod 16))) = a"
    by (simp add: hex_digit(2) byte_nibbles)
  show ?case
  proof (cases "shouldEscape a")
    case True
    then show ?thesis
      using Cons.IH nib hex_digit(1) [OF byte_nibbles(1), of a]
        hex_digit(1) [OF byte_nibbles(2), of a]
      by simp
  next
    case False
    then show ?thesis
      using Cons.IH unescaped_not_special [of a] by simp
  qed
qed

lemma piece_nonempty: "piece kv \<noteq> []"
  by (simp add: piece_def)

lemma piece_no_amp: "CHR ''&'' \<notin> set (piece kv)"
  using QueryEscape_chars by (auto simp: piece_def)

lemma piece_no_semicolon: "CHR '';'' \<notin> set (piece kv)"
  using QueryEscape_chars by (auto simp: piece_def)

lemma Cut_found: "sep \<notin> set a \<Longrightarrow> Cut (a @ sep # b) sep = (a, b)"
  by (induction a) (auto simp: Cut_def)

lemma Cut_not_found: "sep \<notin> set a \<Longrightarrow> Cut a sep = (a, [])"
  by (induction a) (auto simp: Cut_def)

lemma Cut_piece: "Cut (piece kv) CHR ''='' = (QueryEscape (fst kv), QueryEscape (snd kv))"
proof -
  have "CHR ''='' \<notin> set (QueryEscape (fst kv))"
    using QueryEscape_chars by blast
  then show ?thesis
    unfolding piece_def by (simp add: Cut_found)
qed

lemma encode_values_fold:
  "encode_values (QueryEscape k) vs buf = foldl add_piece buf (map (\<lambda>v. piece (k, v)) vs)"
  by (induction vs arbitrary: buf) (simp_all add: add_piece_def piece_def)

lemma encode_keys_fold:
  "encode_keys v keys buf = foldl add_piece buf (map piece (pairs_of v keys))"
  by (induction keys arbitrary: buf)
     (simp_all add: pairs_of_def encode_values_fold comp_def)

lemma add_piece_nonempty: "add_piece buf (piece kv) \<noteq> []"
  by (simp add: add_piece_def piece_nonempty)

lemma foldl_add_piece_join:
  "foldl add_piece (join_pieces (kv # kvs)) (map piece kvs') = join_pieces (kv # kvs @ kvs')"
proof (induction kvs' arbitrary: kv kvs rule: rev_induct)
  case Nil
  then show ?case by simp
next
  case (snoc x xs)
  have step: "join_pieces (kv # ys) @ ''&'' @ piece x = join_pieces (kv # ys @ [x])" for ys
    by (induction ys arbitrary: kv) simp_all
  have ne: "join_pieces (kv # ys) \<noteq> []" for ys
    by (cases ys) (simp_all add: piece_nonempty)
  show ?case
    using snoc.IH [of kv kvs] step [of "kvs @ xs"] ne [of "kvs @ xs"]
    by (simp add: add_piece_def)
qed

lemma Encode_join: "Encode v = join_pieces (pairs_of v (sort (map fst v)))"
proof (cases "pairs_of v (sort (map fst v))")
  case Nil
  then show ?thesis by (simp add: Encode_def encode_keys_fold)
next
  case (Cons kv kvs)
  have "v \<noteq> []" using Cons by (auto simp: pairs_of_def)
  moreover have "foldl add_piece [] (map piece (kv # kvs)) = join_pieces (kv # kvs)"
    using foldl_add_piece_join [of kv "[]" kvs] by (simp add: add_piece_def)
  ultimately show ?thesis using Cons by (simp add: Encode_def encode_keys_fold)
qed

lemma parseQuery_piece:
  "parseQuery m err (piece kv @ CHR ''&'' # rest) = parseQuery (append_pair kv m) err rest"
  "parseQuery m err (piece kv) = (append_pair kv m, err)"
proof -
  have c1: "Cut (piece kv @ CHR ''&'' # rest) CHR ''&'' = (piece kv, rest)"
    by (rule Cut_found [OF piece_no_amp])
  have c2: "Cut (piece kv) CHR ''&'' = (piece kv, [])"
    by (rule Cut_not_found [OF piece_no_amp])
  show "parseQuery m err (piece kv @ CHR ''&'' # rest) = parseQuery (append_pair kv m) err rest"
    by (subst parseQuery.simps)
       (simp add: c1 Cut_piece piece_nonempty piece_no_semicolon QueryUnescape_QueryEscape
          append_pair_def Let_def)
  have "parseQuery m err (piece kv) = parseQuery (append_pair kv m) err []"
    by (subst parseQuery.simps)
       (simp add: c2 Cut_piece piece_nonempty piece_no_semicolon QueryUnescape_QueryEscape
          append_pair_def Let_def)
  then show "parseQuery m err (piece kv) = (append_pair kv m, err)"
    by (simp add: parseQuery.simps [of _ _ "[]"])
qed

lemma parseQuery_join: "parseQuery m err (join_pieces kvs) = (fold append_pair kvs m, err)"
proof (induction kvs arbitrary: m rule: join_pieces.induct)
  case 1
  then show ?case by (simp add: parseQuery.simps [of _ _ "[]"])
next
  case (2 kv)
  then show ?case by (simp add: parseQuery_piece(2))
next
  case (3 kv v va)
  then show ?case by (simp add: parseQuery_piece(1))
qed

lemma Values_index_append_pair:
  "Values_index (append_pair kv m) k =
     (if k = fst kv then Values_index m k @ [snd kv] else Values_index m k)"
  by (simp add: Values_index_def append_pair_def update_conv')

lemma Values_index_fold:
  "Values_index (fold append_pair kvs m) k =
     Values_index m k @ map snd (filter (\<lambda>kv. fst kv = k) kvs)"
  by (induction kvs arbitrary: m) (auto simp: Values_index_append_pair)

lemma pairs_of_filter:
  "distinct keys \<Longrightarrow>
   map snd (filter (\<lambda>kv. fst kv = k) (pairs_of v keys)) =
     (if k \<in> set keys then Values_index v k else [])"
proof (induction keys)
  case Nil
  then show ?case by (simp add: pairs_of_def)
next
  case (Cons a keys)
  have other: "filter (\<lambda>kv. fst kv = k) (map (Pair a) xs) = (if a = k then map (Pair a) xs else [])"
    for xs :: "string list"
    by (induction xs) auto
  from Cons show ?case
    by (auto simp: pairs_of_def other comp_def)
qed

lemma Values_index_absent: "k \<notin> fst ` set v \<Longrightarrow> Values_index v k = []"
  using map_of_eq_None_iff [of v k] by (simp add: Values_index_def)

lemma ParseQuery_Encode:
  assumes "distinct (map fst v)"
  shows "snd (ParseQuery (Encode v)) = None"
    and "Values_index (fst (ParseQuery (Encode v))) k = Values_index v k"
proof -
  have pq: "ParseQuery (Encode v) = (fold append_pair (pairs_of v (sort (map fst v))) [], None)"
    by (simp add: ParseQuery_def Encode_join parseQuery_join)
  show "snd (ParseQuery (Encode v)) = None" by (simp add: pq)
  have "distinct (sort (map fst v))" using assms by simp
  then show "Values_index (fst (ParseQuery (Encode v))) k = Values_index v k"
    using Values_index_absent [of k v]
    by (simp add: pq Values_index_fold pairs_of_filter) (simp add: Values_index_def)
qed

section \<open>Properties of the request builder\<close>

lemma http_NewRequest_Inr:
  assumes "http_NewRequest L method url body = Inr r"
  shows "Header r = []" and "Body r = body"
    and "Method r = (if method = [] then ''GET'' else method)"
  using assms by (auto simp: http_NewRequest_def Let_def split: if_splits sum.splits)

lemma createRequest_Inr:
  assumes "createRequest L c method endpoint path params = (Inr req, out)"
  shows "Method req = (if method = [] then ''GET'' else method)"
    and "Body req = map_option Encode params"
    and "Header req =
           (case params of
              Some p \<Rightarrow> [(''Content-Type'', [''application/x-www-form-urlencoded''])]
            | None \<Rightarrow> [])
           @ [(''Accept'', [''application/json'']),
              (''Authorization'', [''AccessKey '' @ AccessKey c]),
              (''User-Agent'',
               [''MessageBird/ApiClient/'' @ ClientVersion @ '' Go/'' @ runtime_Version L])]"
proof -
  obtain uri where uri: "url_Parse L (endpoint @ ''/'' @ path) = Inr uri"
    using assms by (cases "url_Parse L (endpoint @ ''/'' @ path)") (auto simp: createRequest_def)
  obtain r where r: "http_NewRequest L method uri (map_option Encode params) = Inr r"
    using assms uri
    by (cases "http_NewRequest L method uri (map_option Encode params)"; cases params)
       (auto simp: createRequest_def Let_def)
  have req: "req = r\<lparr>Header :=
      (case params of
         Some p \<Rightarrow> [(''Content-Type'', [''application/x-www-form-urlencoded''])]
       | None \<Rightarrow> [])
      @ [(''Accept'', [''application/json'']),
         (''Authorization'', [''AccessKey '' @ AccessKey c]),
         (''User-Agent'',
          [''MessageBird/ApiClient/'' @ ClientVersion @ '' Go/'' @ runtime_Version L])]\<rparr>"
    using assms uri r http_NewRequest_Inr(1) [OF r]
    by (cases params)
       (auto simp: createRequest_def Let_def Header_Set_def Header_Add_def Values_index_def)
  show "Method req = (if method = [] then ''GET'' else method)"
    using http_NewRequest_Inr(3) [OF r] by (simp add: req)
  show "Body req = map_option Encode params"
    using http_NewRequest_Inr(2) [OF r] by (simp add: req)
  show "Header req =
           (case params of
              Some p \<Rightarrow> [(''Content-Type'', [''application/x-www-form-urlencoded''])]
            | None \<Rightarrow> [])
           @ [(''Accept'', [''application/json'']),
              (''Authorization'', [''AccessKey '' @ AccessKey c]),
              (''User-Agent'',
               [''MessageBird/ApiClient/'' @ ClientVersion @ '' Go/'' @ runtime_Version L])]"
    by (simp add: req)
qed

lemma createJSONRequest_Inr:
  assumes "createJSONRequest L c marshal method endpoint path params = Inr req"
  shows "Method req = (if method = [] then ''GET'' else method)"
    and "\<exists>jsonEncoded. marshal params = Inr jsonEncoded \<and> Body req = Some jsonEncoded"
    and "Header req =
           [(''Content-Type'', [''application/json'']),
            (''Accept'', [''application/json'']),
            (''Authorization'', [''AccessKey '' @ AccessKey c]),
            (''User-Agent'',
             [''MessageBird/ApiClient/'' @ ClientVersion @ '' Go/'' @ runtime_Version L])]"
proof -
  obtain uri where uri: "url_Parse L (endpoint @ ''/'' @ path) = Inr uri"
    using assms
    by (cases "url_Parse L (endpoint @ ''/'' @ path)") (auto simp: createJSONRequest_def)
  obtain jsonEncoded where js: "marshal params = Inr jsonEncoded"
    using assms uri by (cases "marshal params") (auto simp: createJSONRequest_def)
  obtain r where r: "http_NewRequest L method uri (Some jsonEncoded) = Inr r"
    using assms uri js
    by (cases "http_NewRequest L method uri (Some jsonEncoded)")
       (auto simp: createJSONRequest_def)
  have req: "req = r\<lparr>Header :=
           [(''Content-Type'', [''application/json'']),
            (''Accept'', [''application/json'']),
            (''Authorization'', [''AccessKey '' @ AccessKey c]),
            (''User-Agent'',
             [''MessageBird/ApiClient/'' @ ClientVersion @ '' Go/'' @ runtime_Version L])]\<rparr>"
    using assms uri js r http_NewRequest_Inr(1) [OF r]
    by (auto simp: createJSONRequest_def Let_def Header_Set_def Header_Add_def Values_index_def)
  show "Method req = (if method = [] then ''GET'' else method)"
    using http_NewRequest_Inr(3) [OF r] by (simp add: req)
  show "\<exists>jsonEncoded. marshal params = Inr jsonEncoded \<and> Body req = Some jsonEncoded"
    using http_NewRequest_Inr(2) [OF r] js by (simp add: req)
  show "Header req =
           [(''Content-Type'', [''application/json'']),
            (''Accept'', [''application/json'']),
            (''Authorization'', [''AccessKey '' @ AccessKey c]),
            (''User-Agent'',
             [''MessageBird/ApiClient/'' @ ClientVersion @ '' Go/'' @ runtime_Version L])]"
    by (simp add: req)
qed

lemmas example_builder_defs =
  createRequest_def createJSONRequest_def http_NewRequest_def validMethod_def isTokenRune_def
  Header_Set_def Header_Add_def Values_index_def Encode_def upperhex_def shouldEscape_def
  alphanum_def between_def
  example_lib_def example_client_def example_params_def
  Get_def Post_def RestEndpoint_def VoiceEndpoint_def HLRPath_def WebhookPath_def
  ClientVersion_def

lemma example_form_request_built:
  "createRequest example_lib (example_client (respond 200 [])) Post RestEndpoint HLRPath
     (Some example_params) = (Inr example_form_request, [])"
  by (simp add: example_builder_defs example_form_request_def)

lemma example_json_request_built:
  "createJSONRequest example_lib (example_client (respond 200 [])) (\<lambda>p. Inr ''null'')
     Post VoiceEndpoint WebhookPath () = Inr example_json_request"
  by (simp add: example_builder_defs example_json_request_def)

text \<open>
  C9. Every request the builder produces carries \<open>Accept: application/json\<close>,
  \<open>Authorization: AccessKey\<close> followed by the client's access key, and a \<open>User-Agent\<close>
  header. \<open>createRequest\<close> sets \<open>Content-Type: application/x-www-form-urlencoded\<close> when
  form parameters are supplied and sets no \<open>Content-Type\<close> when they are not, which is
  exactly when the request has no body; \<open>createJSONRequest\<close> always sends a body and sets
  \<open>Content-Type: application/json\<close>.
\<close>

theorem builder_headers:
  "(createRequest L c method endpoint path params = (Inr req, out) \<longrightarrow>
      map_of (Header req) ''Accept'' = Some [''application/json'']
    \<and> map_of (Header req) ''Authorization'' = Some [''AccessKey '' @ AccessKey c]
    \<and> map_of (Header req) ''User-Agent''
        = Some [''MessageBird/ApiClient/3.0.0 Go/'' @ runtime_Version L]
    \<and> map_of (Header req) ''Content-Type''
        = (if params = None then None else Some [''application/x-www-form-urlencoded''])
    \<and> (Body req = None \<longleftrightarrow> params = None))
   \<and> (createJSONRequest L c marshal method' endpoint' path' payload = Inr req' \<longrightarrow>
      map_of (Header req') ''Accept'' = Some [''application/json'']
    \<and> map_of (Header req') ''Authorization'' = Some [''AccessKey '' @ AccessKey c]
    \<and> map_of (Header req') ''User-Agent''
        = Some [''MessageBird/ApiClient/3.0.0 Go/'' @ runtime_Version L]
    \<and> map_of (Header req') ''Content-Type'' = Some [''application/json'']
    \<and> Body req' \<noteq> None)"
proof (intro conjI impI)
  assume a: "createRequest L c method endpoint path params = (Inr req, out)"
  note h = createRequest_Inr(3) [OF a] and b = createRequest_Inr(2) [OF a]
  show "map_of (Header req) ''Accept'' = Some [''application/json'']"
    by (cases params) (simp_all add: h)
  show "map_of (Header req) ''Authorization'' = Some [''AccessKey '' @ AccessKey c]"
    by (cases params) (simp_all add: h)
  show "map_of (Header req) ''User-Agent''
        = Some [''MessageBird/ApiClient/3.0.0 Go/'' @ runtime_Version L]"
    by (cases params) (simp_all add: h ClientVersion_def)
  show "map_of (Header req) ''Content-Type''
        = (if params = None then None else Some [''application/x-www-form-urlencoded''])"
    by (cases params) (simp_all add: h)
  show "Body req = None \<longleftrightarrow> params = None"
    by (simp add: b)
next
  assume a: "createJSONRequest L c marshal method' endpoint' path' payload = Inr req'"
  note h = createJSONRequest_Inr(3) [OF a] and b = createJSONRequest_Inr(2) [OF a]
  show "map_of (Header req') ''Accept'' = Some [''application/json'']"
    by (simp add: h)
  show "map_of (Header req') ''Authorization'' = Some [''AccessKey '' @ AccessKey c]"
    by (simp add: h)
  show "map_of (Header req') ''User-Agent''
        = Some [''MessageBird/ApiClient/3.0.0 Go/'' @ runtime_Version L]"
    by (simp add: h ClientVersion_def)
  show "map_of (Header req') ''Content-Type'' = Some [''application/json'']"
    by (simp add: h)
  show "Body req' \<noteq> None"
    using b by auto
qed

theorem builder_headers_witness:
  "createRequest example_lib (example_client (respond 200 [])) Post RestEndpoint HLRPath
     (Some example_params) = (Inr example_form_request, [])
   \<and> createJSONRequest example_lib (example_client (respond 200 [])) (\<lambda>p. Inr ''null'')
     Post VoiceEndpoint WebhookPath () = Inr example_json_request
   \<and> map_of (Header example_form_request) ''Authorization'' = Some [''AccessKey test-key'']
   \<and> map_of (Header example_form_request) ''Content-Type''
       = Some [''application/x-www-form-urlencoded'']
   \<and> map_of (Header example_json_request) ''Authorization'' = Some [''AccessKey test-key'']
   \<and> map_of (Header example_json_request) ''Content-Type'' = Some [''application/json'']"
  using builder_headers
    [of example_lib "example_client (respond 200 [])" Post RestEndpoint HLRPath
        "Some example_params" example_form_request "[]"
        "\<lambda>p. Inr ''null''" Post VoiceEndpoint WebhookPath "()" example_json_request]
    example_form_request_built example_json_request_built
  by (simp add: example_client_def)

text \<open>
  C8. A request built from form parameters (a map, so with distinct keys) has a body that
  \<open>ParseQuery\<close> decodes without error into exactly the supplied values: every key has the
  values it was given, in their order, and a key that was not supplied has none.
\<close>

theorem createRequest_form_body_roundtrip:
  assumes "createRequest L c method endpoint path (Some params) = (Inr req, out)"
    and "distinct (map fst params)"
  shows "\<exists>body. Body req = Some body
           \<and> snd (ParseQuery body) = None
           \<and> (\<forall>k. Values_index (fst (ParseQuery body)) k = Values_index params k)"
  using createRequest_Inr(2) [OF assms(1)] ParseQuery_Encode [OF assms(2)]
  by simp

theorem createRequest_form_body_roundtrip_witness:
  "createRequest example_lib (example_client (respond 200 [])) Post RestEndpoint HLRPath
     (Some example_params) = (Inr example_form_request, [])
   \<and> distinct (map fst example_params)
   \<and> Body example_form_request = Some ''msisdn=%2B31+6&reference=a%26b%3Dc&reference=x''
   \<and> snd (ParseQuery ''msisdn=%2B31+6&reference=a%26b%3Dc&reference=x'') = None
   \<and> Values_index (fst (ParseQuery ''msisdn=%2B31+6&reference=a%26b%3Dc&reference=x''))
         ''reference'' = [''a&b=c'', ''x'']
   \<and> Values_index (fst (ParseQuery ''msisdn=%2B31+6&reference=a%26b%3Dc&reference=x''))
         ''msisdn'' = [''+31 6'']
   \<and> Values_index (fst (ParseQuery ''msisdn=%2B31+6&reference=a%26b%3Dc&reference=x''))
         ''body'' = []"
proof -
  have d: "distinct (map fst example_params)"
    by (simp add: example_params_def)
  have b: "Body example_form_request = Some ''msisdn=%2B31+6&reference=a%26b%3Dc&reference=x''"
    by (simp add: example_form_request_def)
  have v: "Values_index example_params ''reference'' = [''a&b=c'', ''x'']"
    "Values_index example_params ''msisdn'' = [''+31 6'']"
    "Values_index example_params ''body'' = []"
    by (simp_all add: example_params_def Values_index_def)
  show ?thesis
    using createRequest_form_body_roundtrip [OF example_form_request_built d] b v
      example_form_request_built d
    by auto
qed

text \<open>
  C6. The claim is that \<open>DeleteWebhook\<close> builds its request with the method \<open>DELETE\<close>.
  The constant \<open>Delete\<close> of client.go is the text \<open>Delete\<close>: the request built for
  webhook \<open>wh-1\<close> has that method, and a server that answers 200 to \<open>DELETE\<close> and 405 to
  any other method makes \<open>DeleteWebhook\<close> return \<open>ErrResponse\<close>.
\<close>

theorem DeleteWebhook_method_is_not_DELETE:
  "Delete \<noteq> ''DELETE''
   \<and> fst (createRequest example_lib (example_client (respond 200 [])) Delete VoiceEndpoint
            (WebhookPath @ ''/'' @ ''wh-1'') None)
     = Inr \<lparr>Method = ''Delete'', URL = ''https://voice.messagebird.com/webhooks/wh-1'',
            Header =
              [(''Accept'', [''application/json'']),
               (''Authorization'', [''AccessKey test-key'']),
               (''User-Agent'', [''MessageBird/ApiClient/3.0.0 Go/go1.10''])],
            Body = None\<rparr>
   \<and> fst (DeleteWebhook example_lib
            (example_client (\<lambda>req. respond (if Method req = ''DELETE'' then 200 else 405) [] req))
            ''wh-1'') = Some ErrResponse"
  by (simp add: DeleteWebhook_def request_def respond_def Delete_def example_builder_defs)

section \<open>Properties of the dispatcher\<close>

text \<open>
  C3. A response with status code exactly 500 gives the server-unavailable sentinel
  \<open>ErrUnexpectedResponse\<close>; the body is not decoded, whatever it is (the result is the same
  for every decoder, and the decoder's own result is not looked at); the container comes
  back exactly as it went in.
\<close>

theorem request_500_unavailable_untouched:
  assumes "HTTPClient c req = Inr response"
    and "ResponseBody response = Inr responseBody"
    and "StatusCode response = 500"
  shows "fst (request c unmarshal v req) = Some ErrUnexpectedResponse
       \<and> fst (snd (request c unmarshal v req)) = v
       \<and> request c unmarshal v req = request c unmarshal' v req"
  using assms by (simp add: request_def Let_def)

theorem request_500_unavailable_untouched_witness:
  "fst (request \<lparr>AccessKey = ''key'',
                 HTTPClient = (\<lambda>r. Inr \<lparr>StatusCode = 500, ResponseBody = Inr ''internal error''\<rparr>),
                 DebugLog = None\<rparr>
          (\<lambda>b x. (b, Some ''invalid character'')) (Some ''before'')
          \<lparr>Method = ''POST'', URL = ''https://voice.messagebird.com/webhooks'', Header = [],
            Body = None\<rparr>) = Some ErrUnexpectedResponse
   \<and> fst (snd (request \<lparr>AccessKey = ''key'',
                 HTTPClient = (\<lambda>r. Inr \<lparr>StatusCode = 500, ResponseBody = Inr ''internal error''\<rparr>),
                 DebugLog = None\<rparr>
          (\<lambda>b x. (b, Some ''invalid character'')) (Some ''before'')
          \<lparr>Method = ''POST'', URL = ''https://voice.messagebird.com/webhooks'', Header = [],
            Body = None\<rparr>)) = Some ''before''"
  using request_500_unavailable_untouched
    [of "\<lparr>AccessKey = ''key'',
          HTTPClient = (\<lambda>r. Inr \<lparr>StatusCode = 500, ResponseBody = Inr ''internal error''\<rparr>),
          DebugLog = None\<rparr>"
        "\<lparr>Method = ''POST'', URL = ''https://voice.messagebird.com/webhooks'', Header = [],
          Body = None\<rparr>"
        "\<lparr>StatusCode = 500, ResponseBody = Inr ''internal error''\<rparr>"
        "''internal error''"
        "\<lambda>b x. (b, Some ''invalid character'')" "Some ''before''"]
  by simp

text \<open>
  C2, as amended. When the status code is not 500 and a container was supplied, the body is
  decoded into the container whatever the status code is: the container that comes back is
  the one the decoder leaves. If moreover the status code is neither 200 nor 201 and the
  decoder accepts the body for that container (the body is well-formed JSON and matches the
  container's shape, so the decoder reports no error), the dispatcher returns the API-error
  sentinel \<open>ErrResponse\<close>, together with the container populated from the body.
\<close>

theorem request_decodes_then_classifies:
  assumes "HTTPClient c req = Inr response"
    and "ResponseBody response = Inr responseBody"
    and "StatusCode response \<noteq> 500"
  shows "fst (snd (request c unmarshal (Some x) req)) = Some (fst (unmarshal responseBody x))
       \<and> (StatusCode response \<noteq> 200 \<and> StatusCode response \<noteq> 201
            \<and> snd (unmarshal responseBody x) = None
          \<longrightarrow> fst (request c unmarshal (Some x) req) = Some ErrResponse)"
proof -
  obtain x' err where u: "unmarshal responseBody x = (x', err)"
    by (cases "unmarshal responseBody x")
  show ?thesis
    using assms u by (cases err) (simp_all add: request_def Let_def)
qed

theorem request_decodes_then_classifies_witness:
  "fst (snd (request (example_client (respond 404 data_body))
          (example_unmarshal (\<lambda>l. l\<lparr>WebhookList_Data := [example_Webhook]\<rparr>))
          (Some WebhookList_zero)
          \<lparr>Method = ''GET'', URL = ''https://voice.messagebird.com/webhooks/x-1'',
            Header = [], Body = None\<rparr>))
     = Some (WebhookList_zero\<lparr>WebhookList_Data := [example_Webhook]\<rparr>)
   \<and> fst (request (example_client (respond 404 data_body))
          (example_unmarshal (\<lambda>l. l\<lparr>WebhookList_Data := [example_Webhook]\<rparr>))
          (Some WebhookList_zero)
          \<lparr>Method = ''GET'', URL = ''https://voice.messagebird.com/webhooks/x-1'',
            Header = [], Body = None\<rparr>)
     = Some ErrResponse"
  using request_decodes_then_classifies
    [of "example_client (respond 404 data_body)"
        "\<lparr>Method = ''GET'', URL = ''https://voice.messagebird.com/webhooks/x-1'',
          Header = [], Body = None\<rparr>"
        "\<lparr>StatusCode = 404, ResponseBody = Inr data_body\<rparr>"
        data_body
        "example_unmarshal (\<lambda>l. l\<lparr>WebhookList_Data := [example_Webhook]\<rparr>)"
        WebhookList_zero]
  by (simp add: example_client_def respond_def example_unmarshal_def)

text \<open>
  C2, as first stated, promises \<open>ErrResponse\<close> for every well-formed JSON body with a
  status code other than 500, 200 and 201. A well-formed body of the wrong shape refutes it:
  with status 404 and the body \<open>[]\<close>, decoded into a \<open>CallList\<close>, the dispatcher
  returns the decoder's type error and not \<open>ErrResponse\<close>, since a decode error ends the
  dispatch before the status code is classified.
\<close>

theorem request_wrong_shape_body_counterexample:
  "fst (request (example_client (respond 404 ''[]'')) unmarshal_CallList_typed
          (Some CallList_zero)
          \<lparr>Method = ''GET'', URL = ''https://voice.messagebird.com/calls/x-1'',
            Header = [], Body = None\<rparr>)
     = Some (UnmarshalError
               ''json: cannot unmarshal array into Go value of type messagebird.CallList'')
   \<and> fst (request (example_client (respond 404 ''[]'')) unmarshal_CallList_typed
          (Some CallList_zero)
          \<lparr>Method = ''GET'', URL = ''https://voice.messagebird.com/calls/x-1'',
            Header = [], Body = None\<rparr>)
     \<noteq> Some ErrResponse"
  by (simp add: request_def example_client_def respond_def unmarshal_CallList_typed_def)

text \<open>
  C4. A response with status code 200 or 201 whose body the decoder accepts gives no error,
  and the container holds what the decoder stored.
\<close>

theorem request_200_201_success:
  assumes "HTTPClient c req = Inr response"
    and "ResponseBody response = Inr responseBody"
    and "StatusCode response = 200 \<or> StatusCode response = 201"
    and "unmarshal responseBody x = (x', None)"
  shows "fst (request c unmarshal (Some x) req) = None
       \<and> fst (snd (request c unmarshal (Some x) req)) = Some x'"
  using assms by (auto simp: request_def Let_def)

theorem request_200_201_success_witness:
  "fst (request (example_client (respond 201 data_body))
          (example_unmarshal (\<lambda>l. l\<lparr>CallList_Data := [example_Call]\<rparr>))
          (Some CallList_zero)
          \<lparr>Method = ''POST'', URL = ''https://voice.messagebird.com/calls'',
            Header = [], Body = Some ''{}''\<rparr>) = None
   \<and> fst (snd (request (example_client (respond 201 data_body))
          (example_unmarshal (\<lambda>l. l\<lparr>CallList_Data := [example_Call]\<rparr>))
          (Some CallList_zero)
          \<lparr>Method = ''POST'', URL = ''https://voice.messagebird.com/calls'',
            Header = [], Body = Some ''{}''\<rparr>))
     = Some (CallList_zero\<lparr>CallList_Data := [example_Call]\<rparr>)"
  using request_200_201_success
    [of "example_client (respond 201 data_body)"
        "\<lparr>Method = ''POST'', URL = ''https://voice.messagebird.com/calls'',
          Header = [], Body = Some ''{}''\<rparr>"
        "\<lparr>StatusCode = 201, ResponseBody = Inr data_body\<rparr>"
        data_body
        "example_unmarshal (\<lambda>l. l\<lparr>CallList_Data := [example_Call]\<rparr>)"
        CallList_zero
        "CallList_zero\<lparr>CallList_Data := [example_Call]\<rparr>"]
  by (simp add: example_client_def respond_def example_unmarshal_def)

text \<open>
  C10. When a container was supplied, the status code is not 500 and the decoder reports an
  error, the dispatcher returns that error: it is none of the two sentinels and none of the
  transport failures, and the status code does not replace it (with status 404 the result is
  the decode error, not \<open>ErrResponse\<close>).
\<close>

theorem request_decode_error_not_masked:
  assumes "HTTPClient c req = Inr response"
    and "ResponseBody response = Inr responseBody"
    and "StatusCode response \<noteq> 500"
    and "snd (unmarshal responseBody x) = Some err"
  shows "fst (request c unmarshal (Some x) req) = Some (UnmarshalError err)
       \<and> UnmarshalError err \<noteq> ErrResponse
       \<and> UnmarshalError err \<noteq> ErrUnexpectedResponse
       \<and> UnmarshalError err \<noteq> DoError e
       \<and> UnmarshalError err \<noteq> ReadAllError e"
proof -
  obtain x' where "unmarshal responseBody x = (x', Some err)"
    using assms(4) by (cases "unmarshal responseBody x") auto
  with assms(1-3) show ?thesis
    by (simp add: request_def Let_def)
qed

theorem request_decode_error_not_masked_witness:
  "fst (request (example_client (respond 404 ''<html>Not Found</html>''))
          (example_unmarshal (\<lambda>l. l\<lparr>CallList_Data := [example_Call]\<rparr>))
          (Some CallList_zero)
          \<lparr>Method = ''GET'', URL = ''https://voice.messagebird.com/calls/x-1'',
            Header = [], Body = None\<rparr>) = Some (UnmarshalError ''invalid character'')"
  using request_decode_error_not_masked
    [of "example_client (respond 404 ''<html>Not Found</html>'')"
        "\<lparr>Method = ''GET'', URL = ''https://voice.messagebird.com/calls/x-1'',
          Header = [], Body = None\<rparr>"
        "\<lparr>StatusCode = 404, ResponseBody = Inr ''<html>Not Found</html>''\<rparr>"
        "''<html>Not Found</html>''"
        "example_unmarshal (\<lambda>l. l\<lparr>CallList_Data := [example_Call]\<rparr>)"
        CallList_zero
        "''invalid character''"]
  by (simp add: example_client_def respond_def example_unmarshal_def data_body_def
        errors_body_def)

text \<open>
  C7. The claim is that a dispatch without a debug logger writes nothing of the response
  body. The code writes the body to standard output on every dispatch: with \<open>DebugLog\<close> nil
  and a response body \<open>{}\<close>, the dispatcher writes \<open>HTTP RESPONSE: {}\<close> and a newline
  through \<open>fmt.Printf\<close>.
\<close>

theorem request_prints_body_without_DebugLog:
  "DebugLog (example_client (respond 200 ''{}'')) = None
   \<and> snd (snd (request (example_client (respond 200 ''{}'')) (\<lambda>body x. (x, None))
          (None :: unit option)
          \<lparr>Method = ''GET'', URL = ''https://rest.messagebird.com/balance'',
            Header = [], Body = None\<rparr>))
     = [FmtPrintf (''HTTP RESPONSE: {}'' @ [CHR 0x0A])]"
  by (simp add: request_def example_client_def respond_def)

section \<open>Properties of the resource methods\<close>

lemmas example_method_defs =
  request_def respond_def example_unmarshal_def data_body_def errors_body_def
  index0_def deref_def marshal_any_def
  unmarshal_CallFlowList_def unmarshal_CallList_def unmarshal_LegList_def
  unmarshal_RecordingList_def unmarshal_TranscriptionList_def unmarshal_WebhookList_def
  CallFlowList_zero_def CallList_zero_def LegList_zero_def RecordingList_zero_def
  TranscriptionList_zero_def WebhookList_zero_def
  CallFlowPath_def CallPath_def LegPath_def RecordingPath_def TranscriptionPath_def

text \<open>
  C5. Each of the ten single-resource voice methods (\<open>CallFlow\<close>, \<open>NewCallFlow\<close>,
  \<open>Call\<close>, \<open>NewCall\<close>, \<open>Leg\<close>, \<open>Recording\<close>, \<open>Transcription\<close>,
  \<open>NewTranscriptionRequest\<close>, \<open>Webhook\<close>, \<open>NewWebhook\<close>), once its request is
  built and the dispatcher has returned no error or \<open>ErrResponse\<close>, takes the element at
  index zero of the decoded \<open>Data\<close> list with no check for emptiness: when the list is
  non-empty the method returns its first element, and when the list is empty the method
  panics.
\<close>

theorem single_resource_methods_index_zero:
  "(\<forall>req out err l out'.
       createRequest L c Get VoiceEndpoint (CallFlowPath @ ''/'' @ id_cf) None = (Inr req, out) \<longrightarrow>
       request c unmarshal_cf (Some CallFlowList_zero) req = (err, Some l, out') \<longrightarrow>
       (err = None \<or> err = Some ErrResponse) \<longrightarrow>
       (case CallFlowList_Data l of
          [] \<Rightarrow> fst (CallFlow L c unmarshal_cf id_cf) = Panic
        | x # xs \<Rightarrow> \<exists>e. fst (CallFlow L c unmarshal_cf id_cf) = Return (Some x) e))
   \<and> (\<forall>req err l out'.
       createJSONRequest L c marshal_cf Post VoiceEndpoint (CallFlowPath) params_cf = Inr req \<longrightarrow>
       request c unmarshal_cf (Some CallFlowList_zero) req = (err, Some l, out') \<longrightarrow>
       (err = None \<or> err = Some ErrResponse) \<longrightarrow>
       (case CallFlowList_Data l of
          [] \<Rightarrow> fst (NewCallFlow L c marshal_cf unmarshal_cf params_cf) = Panic
        | x # xs \<Rightarrow> \<exists>e. fst (NewCallFlow L c marshal_cf unmarshal_cf params_cf) = Return (Some x) e))
   \<and> (\<forall>req out err l out'.
       createRequest L c Get VoiceEndpoint (CallPath @ ''/'' @ id_call) None = (Inr req, out) \<longrightarrow>
       request c unmarshal_call (Some CallList_zero) req = (err, Some l, out') \<longrightarrow>
       (err = None \<or> err = Some ErrResponse) \<longrightarrow>
       (case CallList_Data l of
          [] \<Rightarrow> fst (Call L c unmarshal_call id_call) = Panic
        | x # xs \<Rightarrow> \<exists>e. fst (Call L c unmarshal_call id_call) = Return (Some x) e))
   \<and> (\<forall>req err l out'.
       createJSONRequest L c marshal_call Post VoiceEndpoint (CallPath) params_call = Inr req \<longrightarrow>
       request c unmarshal_call (Some CallList_zero) req = (err, Some l, out') \<longrightarrow>
       (err = None \<or> err = Some ErrResponse) \<longrightarrow>
       (case CallList_Data l of
          [] \<Rightarrow> fst (NewCall L c marshal_call unmarshal_call params_call) = Panic
        | x # xs \<Rightarrow> \<exists>e. fst (NewCall L c marshal_call unmarshal_call params_call) = Return (Some x) e))
   \<and> (\<forall>req out err l out'.
       createRequest L c Get VoiceEndpoint (CallPath @ ''/'' @ callID @ ''/'' @ LegPath @ ''/'' @ legID) None = (Inr req, out) \<longrightarrow>
       request c unmarshal_leg (Some LegList_zero) req = (err, Some l, out') \<longrightarrow>
       (err = None \<or> err = Some ErrResponse) \<longrightarrow>
       (case LegList_Data l of
          [] \<Rightarrow> fst (Leg L c unmarshal_leg callID legID) = Panic
        | x # xs \<Rightarrow> \<exists>e. fst (Leg L c unmarshal_leg callID legID) = Return (Some x) e))
   \<and> (\<forall>req out err l out'.
       createRequest L c Get VoiceEndpoint (CallPath @ ''/'' @ callID @ ''/'' @ LegPath @ ''/'' @ legID @ ''/'' @ RecordingPath @ ''/'' @ recordingID) None = (Inr req, out) \<longrightarrow>
       request c unmarshal_rec (Some RecordingList_zero) req = (err, Some l, out') \<longrightarrow>
       (err = None \<or> err = Some ErrResponse) \<longrightarrow>
       (case RecordingList_Data l of
          [] \<Rightarrow> fst (Recording L c unmarshal_rec callID legID recordingID) = Panic
        | x # xs \<Rightarrow> \<exists>e. fst (Recording L c unmarshal_rec callID legID recordingID) = Return (Some x) e))
   \<and> (\<forall>req out err l out'.
       createRequest L c Get VoiceEndpoint (CallPath @ ''/'' @ callID @ ''/'' @ LegPath @ ''/'' @ legID @ ''/'' @ RecordingPath @ ''/'' @ recordingID @ ''/'' @ TranscriptionPath @ ''/'' @ transcriptionID) None = (Inr req, out) \<longrightarrow>
       request c unmarshal_tr (Some TranscriptionList_zero) req = (err, Some l, out') \<longrightarrow>
       (err = None \<or> err = Some ErrResponse) \<longrightarrow>
       (case TranscriptionList_Data l of
          [] \<Rightarrow> fst (Transcription L c unmarshal_tr callID legID recordingID transcriptionID) = Panic
        | x # xs \<Rightarrow> \<exists>e. fst (Transcription L c unmarshal_tr callID legID recordingID transcriptionID) = Return (Some x) e))
   \<and> (\<forall>req err l out'.
       createJSONRequest L c marshal_tr Post VoiceEndpoint (CallPath @ ''/'' @ callID @ ''/'' @ LegPath @ ''/'' @ legID @ ''/'' @ RecordingPath @ ''/'' @ TranscriptionPath) () = Inr req \<longrightarrow>
       request c unmarshal_tr (Some TranscriptionList_zero) req = (err, Some l, out') \<longrightarrow>
       (err = None \<or> err = Some ErrResponse) \<longrightarrow>
       (case TranscriptionList_Data l of
          [] \<Rightarrow> fst (NewTranscriptionRequest L c marshal_tr unmarshal_tr callID legID recordingID) = Panic
        | x # xs \<Rightarrow> \<exists>e. fst (NewTranscriptionRequest L c marshal_tr unmarshal_tr callID legID recordingID) = Return (Some x) e))
   \<and> (\<forall>req out err l out'.
       createRequest L c Get VoiceEndpoint (WebhookPath @ ''/'' @ id_wh) None = (Inr req, out) \<longrightarrow>
       request c unmarshal_wh (Some WebhookList_zero) req = (err, Some l, out') \<longrightarrow>
       (err = None \<or> err = Some ErrResponse) \<longrightarrow>
       (case WebhookList_Data l of
          [] \<Rightarrow> fst (Webhook L c unmarshal_wh id_wh) = Panic
        | x # xs \<Rightarrow> \<exists>e. fst (Webhook L c unmarshal_wh id_wh) = Return (Some x) e))
   \<and> (\<forall>req err l out'.
       createJSONRequest L c marshal_wh Post VoiceEndpoint (WebhookPath) params_wh = Inr req \<longrightarrow>
       request c unmarshal_wh (Some WebhookList_zero) req = (err, Some l, out') \<longrightarrow>
       (err = None \<or> err = Some ErrResponse) \<longrightarrow>
       (case WebhookList_Data l of
          [] \<Rightarrow> fst (NewWebhook L c marshal_wh unmarshal_wh params_wh) = Panic
        | x # xs \<Rightarrow> \<exists>e. fst (NewWebhook L c marshal_wh unmarshal_wh params_wh) = Return (Some x) e))"
proof (intro conjI)
  show "(\<forall>req out err l out'.
         createRequest L c Get VoiceEndpoint (CallFlowPath @ ''/'' @ id_cf) None = (Inr req, out) \<longrightarrow>
         request c unmarshal_cf (Some CallFlowList_zero) req = (err, Some l, out') \<longrightarrow>
         (err = None \<or> err = Some ErrResponse) \<longrightarrow>
         (case CallFlowList_Data l of
            [] \<Rightarrow> fst (CallFlow L c unmarshal_cf id_cf) = Panic
          | x # xs \<Rightarrow> \<exists>e. fst (CallFlow L c unmarshal_cf id_cf) = Return (Some x) e))"
    by (auto simp: CallFlow_def index0_def deref_def split: list.splits)
  show "(\<forall>req err l out'.
         createJSONRequest L c marshal_cf Post VoiceEndpoint (CallFlowPath) params_cf = Inr req \<longrightarrow>
         request c unmarshal_cf (Some CallFlowList_zero) req = (err, Some l, out') \<longrightarrow>
         (err = None \<or> err = Some ErrResponse) \<longrightarrow>
         (case CallFlowList_Data l of
            [] \<Rightarrow> fst (NewCallFlow L c marshal_cf unmarshal_cf params_cf) = Panic
          | x # xs \<Rightarrow> \<exists>e. fst (NewCallFlow L c marshal_cf unmarshal_cf params_cf) = Return (Some x) e))"
    by (auto simp: NewCallFlow_def index0_def deref_def split: list.splits)
  show "(\<forall>req out err l out'.
         createRequest L c Get VoiceEndpoint (CallPath @ ''/'' @ id_call) None = (Inr req, out) \<longrightarrow>
         request c unmarshal_call (Some CallList_zero) req = (err, Some l, out') \<longrightarrow>
         (err = None \<or> err = Some ErrResponse) \<longrightarrow>
         (case CallList_Data l of
            [] \<Rightarrow> fst (Call L c unmarshal_call id_call) = Panic
          | x # xs \<Rightarrow> \<exists>e. fst (Call L c unmarshal_call id_call) = Return (Some x) e))"
    by (auto simp: Call_def index0_def deref_def split: list.splits)
  show "(\<forall>req err l out'.
         createJSONRequest L c marshal_call Post VoiceEndpoint (CallPath) params_call = Inr req \<longrightarrow>
         request c unmarshal_call (Some CallList_zero) req = (err, Some l, out') \<longrightarrow>
         (err = None \<or> err = Some ErrResponse) \<longrightarrow>
         (case CallList_Data l of
            [] \<Rightarrow> fst (NewCall L c marshal_call unmarshal_call params_call) = Panic
          | x # xs \<Rightarrow> \<exists>e. fst (NewCall L c marshal_call unmarshal_call params_call) = Return (Some x) e))"
    by (auto simp: NewCall_def index0_def deref_def split: list.splits)
  show "(\<forall>req out err l out'.
         createRequest L c Get VoiceEndpoint (CallPath @ ''/'' @ callID @ ''/'' @ LegPath @ ''/'' @ legID) None = (Inr req, out) \<longrightarrow>
         request c unmarshal_leg (Some LegList_zero) req = (err, Some l, out') \<longrightarrow>
         (err = None \<or> err = Some ErrResponse) \<longrightarrow>
         (case LegList_Data l of
            [] \<Rightarrow> fst (Leg L c unmarshal_leg callID legID) = Panic
          | x # xs \<Rightarrow> \<exists>e. fst (Leg L c unmarshal_leg callID legID) = Return (Some x) e))"
    by (auto simp: Leg_def index0_def deref_def split: list.splits)
  show "(\<forall>req out err l out'.
         createRequest L c Get VoiceEndpoint (CallPath @ ''/'' @ callID @ ''/'' @ LegPath @ ''/'' @ legID @ ''/'' @ RecordingPath @ ''/'' @ recordingID) None = (Inr req, out) \<longrightarrow>
         request c unmarshal_rec (Some RecordingList_zero) req = (err, Some l, out') \<longrightarrow>
         (err = None \<or> err = Some ErrResponse) \<longrightarrow>
         (case RecordingList_Data l of
            [] \<Rightarrow> fst (Recording L c unmarshal_rec callID legID recordingID) = Panic
          | x # xs \<Rightarrow> \<exists>e. fst (Recording L c unmarshal_rec callID legID recordingID) = Return (Some x) e))"
    by (auto simp: Recording_def index0_def deref_def split: list.splits)
  show "(\<forall>req out err l out'.
         createRequest L c Get VoiceEndpoint (CallPath @ ''/'' @ callID @ ''/'' @ LegPath @ ''/'' @ legID @ ''/'' @ RecordingPath @ ''/'' @ recordingID @ ''/'' @ TranscriptionPath @ ''/'' @ transcriptionID) None = (Inr req, out) \<longrightarrow>
         request c unmarshal_tr (Some TranscriptionList_zero) req = (err, Some l, out') \<longrightarrow>
         (err = None \<or> err = Some ErrResponse) \<longrightarrow>
         (case TranscriptionList_Data l of
            [] \<Rightarrow> fst (Transcription L c unmarshal_tr callID legID recordingID transcriptionID) = Panic
          | x # xs \<Rightarrow> \<exists>e. fst (Transcription L c unmarshal_tr callID legID recordingID transcriptionID) = Return (Some x) e))"
    by (auto simp: Transcription_def index0_def deref_def split: list.splits)
  show "(\<forall>req err l out'.
         createJSONRequest L c marshal_tr Post VoiceEndpoint (CallPath @ ''/'' @ callID @ ''/'' @ LegPath @ ''/'' @ legID @ ''/'' @ RecordingPath @ ''/'' @ TranscriptionPath) () = Inr req \<longrightarrow>
         request c unmarshal_tr (Some TranscriptionList_zero) req = (err, Some l, out') \<longrightarrow>
         (err = None \<or> err = Some ErrResponse) \<longrightarrow>
         (case TranscriptionList_Data l of
            [] \<Rightarrow> fst (NewTranscriptionRequest L c marshal_tr unmarshal_tr callID legID recordingID) = Panic
          | x # xs \<Rightarrow> \<exists>e. fst (NewTranscriptionRequest L c marshal_tr unmarshal_tr callID legID recordingID) = Return (Some x) e))"
    by (auto simp: NewTranscriptionRequest_def index0_def deref_def split: list.splits)
  show "(\<forall>req out err l out'.
         createRequest L c Get VoiceEndpoint (WebhookPath @ ''/'' @ id_wh) None = (Inr req, out) \<longrightarrow>
         request c unmarshal_wh (Some WebhookList_zero) req = (err, Some l, out') \<longrightarrow>
         (err = None \<or> err = Some ErrResponse) \<longrightarrow>
         (case WebhookList_Data l of
            [] \<Rightarrow> fst (Webhook L c unmarshal_wh id_wh) = Panic
          | x # xs \<Rightarrow> \<exists>e. fst (Webhook L c unmarshal_wh id_wh) = Return (Some x) e))"
    by (auto simp: Webhook_def index0_def deref_def split: list.splits)
  show "(\<forall>req err l out'.
         createJSONRequest L c marshal_wh Post VoiceEndpoint (WebhookPath) params_wh = Inr req \<longrightarrow>
         request c unmarshal_wh (Some WebhookList_zero) req = (err, Some l, out') \<longrightarrow>
         (err = None \<or> err = Some ErrResponse) \<longrightarrow>
         (case WebhookList_Data l of
            [] \<Rightarrow> fst (NewWebhook L c marshal_wh unmarshal_wh params_wh) = Panic
          | x # xs \<Rightarrow> \<exists>e. fst (NewWebhook L c marshal_wh unmarshal_wh params_wh) = Return (Some x) e))"
    by (auto simp: NewWebhook_def index0_def deref_def split: list.splits)
qed

theorem single_resource_methods_index_zero_witness:
  "fst (CallFlow example_lib (example_client (respond 404 errors_body))
          unmarshal_CallFlowList ''x-1'') = Panic
   \<and> fst (NewCallFlow example_lib (example_client (respond 404 errors_body))
          marshal_any unmarshal_CallFlowList None) = Panic
   \<and> fst (Call example_lib (example_client (respond 404 errors_body))
          unmarshal_CallList ''x-1'') = Panic
   \<and> fst (NewCall example_lib (example_client (respond 404 errors_body))
          marshal_any unmarshal_CallList None) = Panic
   \<and> fst (Leg example_lib (example_client (respond 404 errors_body))
          unmarshal_LegList ''c'' ''l'') = Panic
   \<and> fst (Recording example_lib (example_client (respond 404 errors_body))
          unmarshal_RecordingList ''c'' ''l'' ''r'') = Panic
   \<and> fst (Transcription example_lib (example_client (respond 404 errors_body))
          unmarshal_TranscriptionList ''c'' ''l'' ''r'' ''t'') = Panic
   \<and> fst (NewTranscriptionRequest example_lib (example_client (respond 404 errors_body))
          marshal_any unmarshal_TranscriptionList ''c'' ''l'' ''r'') = Panic
   \<and> fst (Webhook example_lib (example_client (respond 404 errors_body))
          unmarshal_WebhookList ''x-1'') = Panic
   \<and> fst (NewWebhook example_lib (example_client (respond 404 errors_body))
          marshal_any unmarshal_WebhookList None) = Panic
   \<and> (\<exists>e. fst (CallFlow example_lib (example_client (respond 200 data_body))
          unmarshal_CallFlowList ''x-1'') = Return (Some example_CallFlow) e)
   \<and> (\<exists>e. fst (Call example_lib (example_client (respond 200 data_body))
          unmarshal_CallList ''x-1'') = Return (Some example_Call) e)
   \<and> (\<exists>e. fst (Leg example_lib (example_client (respond 200 data_body))
          unmarshal_LegList ''c'' ''l'') = Return (Some example_Leg) e)
   \<and> (\<exists>e. fst (Recording example_lib (example_client (respond 200 data_body))
          unmarshal_RecordingList ''c'' ''l'' ''r'') = Return (Some example_Recording) e)
   \<and> (\<exists>e. fst (Transcription example_lib (example_client (respond 200 data_body))
          unmarshal_TranscriptionList ''c'' ''l'' ''r'' ''t'')
        = Return (Some example_Transcription) e)
   \<and> (\<exists>e. fst (NewWebhook example_lib (example_client (respond 201 data_body))
          marshal_any unmarshal_WebhookList None) = Return (Some example_Webhook) e)"
proof -
  note empty = single_resource_methods_index_zero
    [where c = "example_client (respond 404 errors_body)" and L = example_lib and unmarshal_cf = unmarshal_CallFlowList
          and unmarshal_call = unmarshal_CallList and unmarshal_leg = unmarshal_LegList
          and unmarshal_rec = unmarshal_RecordingList
          and unmarshal_tr = unmarshal_TranscriptionList
          and unmarshal_wh = unmarshal_WebhookList
          and marshal_cf = marshal_any and marshal_call = marshal_any
          and marshal_tr = marshal_any and marshal_wh = marshal_any
          and params_cf = None and params_call = None and params_wh = None
          and id_cf = "''x-1''" and id_call = "''x-1''" and id_wh = "''x-1''"
          and callID = "''c''" and legID = "''l''" and recordingID = "''r''"
          and transcriptionID = "''t''"]
  note filled = single_resource_methods_index_zero
    [where c = "example_client (respond 200 data_body)" and L = example_lib and unmarshal_cf = unmarshal_CallFlowList
          and unmarshal_call = unmarshal_CallList and unmarshal_leg = unmarshal_LegList
          and unmarshal_rec = unmarshal_RecordingList
          and unmarshal_tr = unmarshal_TranscriptionList
          and unmarshal_wh = unmarshal_WebhookList
          and marshal_cf = marshal_any and marshal_call = marshal_any
          and marshal_tr = marshal_any and marshal_wh = marshal_any
          and params_cf = None and params_call = None and params_wh = None
          and id_cf = "''x-1''" and id_call = "''x-1''" and id_wh = "''x-1''"
          and callID = "''c''" and legID = "''l''" and recordingID = "''r''"
          and transcriptionID = "''t''"]
  note created = single_resource_methods_index_zero
    [where c = "example_client (respond 201 data_body)" and L = example_lib and unmarshal_cf = unmarshal_CallFlowList
          and unmarshal_call = unmarshal_CallList and unmarshal_leg = unmarshal_LegList
          and unmarshal_rec = unmarshal_RecordingList
          and unmarshal_tr = unmarshal_TranscriptionList
          and unmarshal_wh = unmarshal_WebhookList
          and marshal_cf = marshal_any and marshal_call = marshal_any
          and marshal_tr = marshal_any and marshal_wh = marshal_any
          and params_cf = None and params_call = None and params_wh = None
          and id_cf = "''x-1''" and id_call = "''x-1''" and id_wh = "''x-1''"
          and callID = "''c''" and legID = "''l''" and recordingID = "''r''"
          and transcriptionID = "''t''"]
  have e: "fst (CallFlow example_lib (example_client (respond 404 errors_body))
          unmarshal_CallFlowList ''x-1'') = Panic
       \<and> fst (NewCallFlow example_lib (example_client (respond 404 errors_body))
          marshal_any unmarshal_CallFlowList None) = Panic
       \<and> fst (Call example_lib (example_client (respond 404 errors_body))
          unmarshal_CallList ''x-1'') = Panic
       \<and> fst (NewCall example_lib (example_client (respond 404 errors_body))
          marshal_any unmarshal_CallList None) = Panic
       \<and> fst (Leg example_lib (example_client (respond 404 errors_body))
          unmarshal_LegList ''c'' ''l'') = Panic
       \<and> fst (Recording example_lib (example_client (respond 404 errors_body))
          unmarshal_RecordingList ''c'' ''l'' ''r'') = Panic
       \<and> fst (Transcription example_lib (example_client (respond 404 errors_body))
          unmarshal_TranscriptionList ''c'' ''l'' ''r'' ''t'') = Panic
       \<and> fst (NewTranscriptionRequest example_lib (example_client (respond 404 errors_body))
          marshal_any unmarshal_TranscriptionList ''c'' ''l'' ''r'') = Panic
       \<and> fst (Webhook example_lib (example_client (respond 404 errors_body))
          unmarshal_WebhookList ''x-1'') = Panic
       \<and> fst (NewWebhook example_lib (example_client (respond 404 errors_body))
          marshal_any unmarshal_WebhookList None) = Panic"
    using empty by (simp add: example_builder_defs example_method_defs)
  have f: "(\<exists>e. fst (CallFlow example_lib (example_client (respond 200 data_body))
          unmarshal_CallFlowList ''x-1'') = Return (Some example_CallFlow) e)
       \<and> (\<exists>e. fst (Call example_lib (example_client (respond 200 data_body))
          unmarshal_CallList ''x-1'') = Return (Some example_Call) e)
       \<and> (\<exists>e. fst (Leg example_lib (example_client (respond 200 data_body))
          unmarshal_LegList ''c'' ''l'') = Return (Some example_Leg) e)
       \<and> (\<exists>e. fst (Recording example_lib (example_client (respond 200 data_body))
          unmarshal_RecordingList ''c'' ''l'' ''r'') = Return (Some example_Recording) e)
       \<and> (\<exists>e. fst (Transcription example_lib (example_client (respond 200 data_body))
          unmarshal_TranscriptionList ''c'' ''l'' ''r'' ''t'')
        = Return (Some example_Transcription) e)"
    using filled by (simp add: example_builder_defs example_method_defs)
  have g: "(\<exists>e. fst (NewWebhook example_lib (example_client (respond 201 data_body))
          marshal_any unmarshal_WebhookList None) = Return (Some example_Webhook) e)"
    using created by (simp add: example_builder_defs example_method_defs)
  from e f g show ?thesis by simp
qed

text \<open>
  C1. The claim is that every resource method hands \<open>ErrResponse\<close> on to its caller. In
  the example the dispatcher returns \<open>ErrResponse\<close> for a 404 response, and \<open>Call\<close>
  returns the decoded element with a nil error; so do \<open>NewCallFlow\<close> on a 422 response
  and \<open>Calls\<close> on a 401 response, while \<open>Webhook\<close> on the same 404 response returns the
  element together with \<open>ErrResponse\<close>.
\<close>

theorem voice_methods_swallow_ErrResponse:
  "fst (request (example_client (respond 404 data_body)) unmarshal_CallList
          (Some CallList_zero)
          \<lparr>Method = ''GET'', URL = ''https://voice.messagebird.com/calls/x-1'',
            Header =
              [(''Accept'', [''application/json'']),
               (''Authorization'', [''AccessKey test-key'']),
               (''User-Agent'', [''MessageBird/ApiClient/3.0.0 Go/go1.10''])],
            Body = None\<rparr>) = Some ErrResponse
   \<and> fst (Call example_lib (example_client (respond 404 data_body)) unmarshal_CallList ''x-1'')
     = Return (Some example_Call) None
   \<and> fst (NewCallFlow example_lib (example_client (respond 422 data_body)) marshal_any
            unmarshal_CallFlowList None)
     = Return (Some example_CallFlow) None
   \<and> fst (Calls example_lib (example_client (respond 401 errors_body)) unmarshal_CallList)
     = Return (Some CallList_zero) None
   \<and> fst (Webhook example_lib (example_client (respond 404 data_body)) unmarshal_WebhookList
            ''x-1'')
     = Return (Some example_Webhook) (Some ErrResponse)"
  by (simp add: Call_def NewCallFlow_def Calls_def Webhook_def example_builder_defs
        example_method_defs)

end
